theory Spec2Isabelle
  imports Complex_Main "HOL-Library.AList"
begin

section \<open>Python text\<close>

text \<open>
  A Python \<open>str\<close> is modelled as a \<open>string\<close>, one \<open>char\<close> per code point; the text
  handled is taken to consist of code points below 256.  \<open>isspace\<close> is the
  whitespace class shared by \<open>str.strip\<close>, \<open>str.isspace\<close> and the \<open>\s\<close> of \<open>re\<close> on
  \<open>str\<close> patterns, restricted to that range.
\<close>

definition NL :: char where
  "NL = CHR 0x0A"

definition CR :: char where
  "CR = CHR 0x0D"

definition TAB :: char where
  "TAB = CHR 0x09"

definition isspace :: "char \<Rightarrow> bool" where
  "isspace c = (c \<in> set [CHR 0x09, CHR 0x0A, CHR 0x0B, CHR 0x0C, CHR 0x0D,
       CHR 0x1C, CHR 0x1D, CHR 0x1E, CHR 0x1F, CHR 0x20, CHR 0x85, CHR 0xA0])"

definition lstrip :: "string \<Rightarrow> string" where
  "lstrip s = dropWhile isspace s"

definition rstrip :: "string \<Rightarrow> string" where
  "rstrip s = rev (dropWhile isspace (rev s))"

text \<open>\<open>s.strip()\<close>\<close>

definition strip :: "string \<Rightarrow> string" where
  "strip s = rstrip (lstrip s)"

text \<open>\<open>s.split(sep, 1)[0]\<close> for a one-character separator: the text before its first
  occurrence, the whole of \<open>s\<close> when there is none.\<close>

definition split_first :: "char \<Rightarrow> string \<Rightarrow> string" where
  "split_first sep s = takeWhile (\<lambda>c. c \<noteq> sep) s"

text \<open>\<open>s.startswith(p)\<close>, returning the rest of \<open>s\<close>.\<close>

fun after_prefix :: "string \<Rightarrow> string \<Rightarrow> string option" where
  "after_prefix [] s = Some s"
| "after_prefix (p # ps) [] = None"
| "after_prefix (p # ps) (c # cs) = (if p = c then after_prefix ps cs else None)"

text \<open>Reading a text file: universal newlines (\<open>\r\n\<close> and \<open>\r\<close> are read as \<open>\n\<close>),
  then \<open>readlines\<close>, which keeps the newline that ends each line.\<close>

fun universal_newlines :: "string \<Rightarrow> string" where
  "universal_newlines [] = []"
| "universal_newlines [c] = (if c = CR then [NL] else [c])"
| "universal_newlines (c # d # cs) =
     (if c = CR then (if d = NL then NL # universal_newlines cs
                      else NL # universal_newlines (d # cs))
      else c # universal_newlines (d # cs))"

fun keepends :: "string \<Rightarrow> string list" where
  "keepends [] = []"
| "keepends (c # cs) =
     (if c = NL then [c] # keepends cs
      else (case keepends cs of [] \<Rightarrow> [[c]] | l # ls \<Rightarrow> (c # l) # ls))"

definition readlines :: "string \<Rightarrow> string list" where
  "readlines text = keepends (universal_newlines text)"

section \<open>Python values\<close>

text \<open>
  The values the parameters take.  The program does no arithmetic on a float: it only
  parses and prints them, so a float is represented by its \<open>repr\<close>, the text that
  \<open>str\<close> and an f-string print for it (\<open>30.0\<close> is \<open>PyFloat ''30.0''\<close>).
\<close>

datatype pyval = PyNone | PyBool bool | PyInt int | PyFloat string | PyStr string

fun str_nat :: "nat \<Rightarrow> string" where
  "str_nat n = (if n < 10 then [''0123456789'' ! n]
                else str_nat (n div 10) @ [''0123456789'' ! (n mod 10)])"

declare str_nat.simps [simp del]

definition str_int :: "int \<Rightarrow> string" where
  "str_int i = (if i < 0 then CHR ''-'' # str_nat (nat (- i)) else str_nat (nat i))"

text \<open>\<open>str(v)\<close>, which is also what \<open>f"{v}"\<close> prints.\<close>

fun py_str :: "pyval \<Rightarrow> string" where
  "py_str PyNone = ''None''"
| "py_str (PyBool b) = (if b then ''True'' else ''False'')"
| "py_str (PyInt i) = str_int i"
| "py_str (PyFloat r) = r"
| "py_str (PyStr s) = s"

section \<open>The post-processing pass: \<open>remove_semicolon_lines\<close>\<close>

text \<open>The dictionary returned by \<open>parse_3d_printing_stats\<close>: each entry is \<open>None\<close>
  until its comment line has been seen.\<close>

record stats =
  estimated_printing_time :: pyval
  total_filament_cost :: pyval
  total_filament_used :: pyval

definition header_lines :: "pyval \<Rightarrow> pyval \<Rightarrow> pyval \<Rightarrow> pyval \<Rightarrow> stats \<Rightarrow> string list" where
  "header_lines welding_speed line_width layer_height first_layer_height st =
     [''; Welding speed = '' @ py_str welding_speed @ [NL],
      ''; Line_width = '' @ py_str line_width @ [NL],
      ''; Layer_height = '' @ py_str layer_height @ [NL],
      ''; First_layer_height = '' @ py_str first_layer_height @ [NL],
      ''Estimated_printing_time = '' @ py_str (estimated_printing_time st) @ [NL],
      ''Total_filament_cost = '' @ py_str (total_filament_cost st) @ [NL],
      ''Total_filament_used = '' @ py_str (total_filament_used st) @ [NL]]"

text \<open>
  What is left of \<open>^\t; layer_height\s*=\s*\S+\<close> after its literal prefix:
  \<open>\s*=\s*\S+\<close>, matched at the start of \<open>r\<close>.  \<open>=\<close> is no whitespace and \<open>\S\<close> is the
  complement of \<open>\s\<close>, so the greedy match of each \<open>\s*\<close> is the only one that can go on.
\<close>

definition assignment_tail :: "string \<Rightarrow> bool" where
  "assignment_tail r =
     (case dropWhile isspace r of
        [] \<Rightarrow> False
      | c # r' \<Rightarrow> c = CHR ''='' \<and> dropWhile isspace r' \<noteq> [])"

text \<open>\<open>layer_height_pattern.match(s)\<close> and \<open>first_layer_height_pattern.match(s)\<close>,
  as truth values.\<close>

definition layer_height_pattern :: "string \<Rightarrow> bool" where
  "layer_height_pattern s =
     (case after_prefix (TAB # ''; layer_height'') s of
        None \<Rightarrow> False | Some r \<Rightarrow> assignment_tail r)"

definition first_layer_height_pattern :: "string \<Rightarrow> bool" where
  "first_layer_height_pattern s =
     (case after_prefix (TAB # ''; first_layer_height'') s of
        None \<Rightarrow> False | Some r \<Rightarrow> assignment_tail r)"

text \<open>The body of the loop: what one input line appends to \<open>cleaned_lines\<close>.\<close>

definition clean_line :: "string \<Rightarrow> string list" where
  "clean_line line =
     (let stripped_line = strip line in
      if CHR '';'' \<in> set stripped_line then
        (if layer_height_pattern stripped_line \<or> first_layer_height_pattern stripped_line
         then [line]
         else (let cleaned_line = strip (split_first (CHR '';'') stripped_line) in
               if cleaned_line \<noteq> [] then [cleaned_line @ [NL]] else []))
      else [line])"

definition cleaned_lines :: "string list \<Rightarrow> string list" where
  "cleaned_lines lines = foldl (\<lambda>acc line. acc @ clean_line line) [] lines"

text \<open>
  \<open>remove_semicolon_lines\<close>, from the text of \<open>input_file\<close> to the text written to
  \<open>output_file\<close> (\<open>writelines\<close> writes the lines one after the other).
\<close>

definition remove_semicolon_lines ::
  "string \<Rightarrow> pyval \<Rightarrow> pyval \<Rightarrow> pyval \<Rightarrow> pyval \<Rightarrow> stats \<Rightarrow> string" where
  "remove_semicolon_lines input_text welding_speed line_width layer_height first_layer_height st =
     concat (header_lines welding_speed line_width layer_height first_layer_height st)
     @ concat (cleaned_lines (readlines input_text))"

text \<open>
  The pass as the specification words it: a line with a semicolon keeps only the text
  before its first semicolon (trimmed, ended by a newline) and disappears when that text
  is empty; a line without a semicolon stays as it is.
\<close>

definition spec_strip_comment :: "string \<Rightarrow> string list" where
  "spec_strip_comment line =
     (if CHR '';'' \<in> set line
      then (let kept = strip (takeWhile (\<lambda>c. c \<noteq> CHR '';'') line) in
            if kept = [] then [] else [kept @ [NL]])
      else [line])"


section \<open>The collaborators of \<open>main.py\<close>\<close>

text \<open>
  Exceptions are values: every function that can raise returns \<open>exn + 'a\<close>, with \<open>Inl\<close>
  the exception.
\<close>

datatype exn =
    CalledProcessError | FileNotFoundError | UnicodeDecodeError | OSError
  | ParsingError | TypeError | ValueError | KeyError
  | InterpolationDepthError | InterpolationSyntaxError | InterpolationMissingOptionError
  | UnsupportedCommand

subsection \<open>\<open>configparser.ConfigParser\<close>\<close>

text \<open>
  A parser holds its \<open>DEFAULT\<close> section and its named sections, all with raw values;
  dictionaries are association lists in insertion order.
\<close>

type_synonym ini_section = "(string \<times> string) list"

record config =
  defaults :: ini_section
  sections :: "(string \<times> ini_section) list"

text \<open>\<open>optionxform\<close> is \<open>str.lower\<close>.\<close>

definition lower_char :: "char \<Rightarrow> char" where
  "lower_char c =
     (let n = (of_char c :: nat) in
      if (65 \<le> n \<and> n \<le> 90) \<or> (192 \<le> n \<and> n \<le> 222 \<and> n \<noteq> 215) then char_of (n + 32) else c)"

definition lower :: "string \<Rightarrow> string" where
  "lower s = map lower_char s"

text \<open>\<open>_KEYCRE.match(s)\<close> for \<open>_KEYCRE = %\(([^)]+)\)s\<close>: the name in the brackets and
  the text after the match.\<close>

definition keycre_match :: "string \<Rightarrow> (string \<times> string) option" where
  "keycre_match s =
     (case after_prefix ''%('' s of
        None \<Rightarrow> None
      | Some r \<Rightarrow>
          (let name = takeWhile (\<lambda>c. c \<noteq> CHR '')'') r in
           if name = [] then None
           else (case after_prefix '')s'' (dropWhile (\<lambda>c. c \<noteq> CHR '')'') r) of
                   None \<Rightarrow> None
                 | Some rest \<Rightarrow> Some (name, rest))))"

text \<open>\<open>value.replace('%%', '')\<close>\<close>

fun remove_escaped :: "string \<Rightarrow> string" where
  "remove_escaped [] = []"
| "remove_escaped [c] = [c]"
| "remove_escaped (c # d # cs) =
     (if c = CHR ''%'' \<and> d = CHR ''%'' then remove_escaped cs
      else c # remove_escaped (d # cs))"

lemma after_prefix_length: "after_prefix p s = Some r \<Longrightarrow> length s = length p + length r"
  by (induction p s rule: after_prefix.induct) (auto split: if_splits)

lemma keycre_match_shorter: "keycre_match s = Some (name, rest) \<Longrightarrow> length rest < length s"
proof -
  assume a: "keycre_match s = Some (name, rest)"
  then obtain r where r: "after_prefix ''%('' s = Some r"
    by (auto simp: keycre_match_def split: option.splits)
  with a have "after_prefix '')s'' (dropWhile (\<lambda>c. c \<noteq> CHR '')'') r) = Some rest"
    by (auto simp: keycre_match_def Let_def split: option.splits if_splits)
  then have "length (dropWhile (\<lambda>c. c \<noteq> CHR '')'') r) = 2 + length rest"
    by (auto dest: after_prefix_length)
  moreover have "length (dropWhile (\<lambda>c. c \<noteq> CHR '')'') r) \<le> length r"
    by (rule length_dropWhile_le)
  moreover have "length s = 2 + length r"
    using r by (auto dest: after_prefix_length)
  ultimately show ?thesis by simp
qed

text \<open>\<open>_KEYCRE.sub('', s)\<close>\<close>

function remove_keys :: "string \<Rightarrow> string" where
  "remove_keys [] = []"
| "remove_keys (c # cs) =
     (case keycre_match (c # cs) of
        Some (name, rest) \<Rightarrow> remove_keys rest
      | None \<Rightarrow> c # remove_keys cs)"
  by pat_completeness auto
termination
  by (relation "measure length") (auto dest: keycre_match_shorter)

text \<open>\<open>BasicInterpolation.before_set\<close>: whether the value is accepted.\<close>

definition before_set :: "string \<Rightarrow> bool" where
  "before_set v = (CHR ''%'' \<notin> set (remove_keys (remove_escaped v)))"

definition MAX_INTERPOLATION_DEPTH :: nat where
  "MAX_INTERPOLATION_DEPTH = 10"

text \<open>
  \<open>BasicInterpolation._interpolate_some\<close>, returning the text it appends to \<open>accum\<close>.
  The depth is tested again at each turn of the loop, where it has not changed.
\<close>

function interpolate_some :: "ini_section \<Rightarrow> nat \<Rightarrow> string \<Rightarrow> exn + string" where
  "interpolate_some m depth rest =
     (if depth > MAX_INTERPOLATION_DEPTH then Inl InterpolationDepthError
      else if rest = [] then Inr []
      else
        (let before = takeWhile (\<lambda>c. c \<noteq> CHR ''%'') rest;
             rest1 = dropWhile (\<lambda>c. c \<noteq> CHR ''%'') rest
         in if rest1 = [] then Inr rest
            else if take 1 (drop 1 rest1) = ''%'' then
              (case interpolate_some m depth (drop 2 rest1) of
                 Inl e \<Rightarrow> Inl e
               | Inr t \<Rightarrow> Inr (before @ ''%'' @ t))
            else if take 1 (drop 1 rest1) = ''('' then
              (case keycre_match rest1 of
                 None \<Rightarrow> Inl InterpolationSyntaxError
               | Some (name, rest2) \<Rightarrow>
                   (case map_of m (lower name) of
                      None \<Rightarrow> Inl InterpolationMissingOptionError
                    | Some v \<Rightarrow>
                        (case (if CHR ''%'' \<in> set v then interpolate_some m (Suc depth) v
                               else Inr v) of
                           Inl e \<Rightarrow> Inl e
                         | Inr t \<Rightarrow>
                             (case interpolate_some m depth rest2 of
                                Inl e \<Rightarrow> Inl e
                              | Inr t' \<Rightarrow> Inr (before @ t @ t')))))
            else Inl InterpolationSyntaxError))"
  by pat_completeness auto
termination
proof (relation "measures [\<lambda>(m, depth, rest). Suc MAX_INTERPOLATION_DEPTH - depth,
                           \<lambda>(m, depth, rest). length rest]", goal_cases)
  case 1
  then show ?case by simp
next
  case (2 m depth rest before rest1)
  then have "rest1 \<noteq> []" by simp
  then have "length (drop 2 rest1) < length rest1" by simp
  moreover have "length rest1 \<le> length rest"
    using 2 by (simp add: length_dropWhile_le)
  ultimately show ?case by simp
next
  case (3 m depth rest before rest1 x2 name rest2 v)
  then have "depth \<le> MAX_INTERPOLATION_DEPTH" by simp
  then show ?case by (simp add: Suc_diff_le)
next
  case (4 m depth rest before rest1 x2 name rest2 v t)
  then have "length rest2 < length rest1" by (auto dest: keycre_match_shorter)
  moreover have "length rest1 \<le> length rest"
    using 4 by (simp add: length_dropWhile_le)
  ultimately show ?case by simp
qed

declare interpolate_some.simps [simp del]

text \<open>\<open>config.get('DEFAULT', option, fallback=...)\<close>: \<open>None\<close> when the option is missing
  (the fallback is returned), otherwise the interpolated value or an interpolation
  error.\<close>

definition config_get :: "config \<Rightarrow> string \<Rightarrow> (exn + string) option" where
  "config_get c option =
     (case map_of (defaults c) (lower option) of
        None \<Rightarrow> None
      | Some v \<Rightarrow> Some (interpolate_some (defaults c) 1 v))"

text \<open>\<open>config['DEFAULT'][key] = value\<close>: a non-empty value goes through \<open>before_set\<close>.\<close>

definition config_set :: "config \<Rightarrow> string \<Rightarrow> string \<Rightarrow> exn + config" where
  "config_set c key v =
     (if v \<noteq> [] \<and> \<not> before_set v then Inl ValueError
      else Inr (c\<lparr>defaults := AList.update (lower key) v (defaults c)\<rparr>))"

text \<open>\<open>key in config['DEFAULT']\<close>\<close>

definition config_has :: "config \<Rightarrow> string \<Rightarrow> bool" where
  "config_has c key = (lower key \<in> fst ` set (defaults c))"

text \<open>\<open>RawConfigParser.BOOLEAN_STATES\<close> and \<open>_convert_to_boolean\<close>.\<close>

definition BOOLEAN_STATES :: "(string \<times> bool) list" where
  "BOOLEAN_STATES = [(''1'', True), (''yes'', True), (''true'', True), (''on'', True),
                     (''0'', False), (''no'', False), (''false'', False), (''off'', False)]"

definition convert_to_boolean :: "string \<Rightarrow> exn + bool" where
  "convert_to_boolean v =
     (case map_of BOOLEAN_STATES (lower v) of None \<Rightarrow> Inl ValueError | Some b \<Rightarrow> Inr b)"

subsection \<open>The modes, the formatter, the runtime and the file system\<close>

datatype mode_kind = FDM | Metal | LaserCut

text \<open>\<open>CLICommandOptions(file, min_distance, verbose, params)\<close>; the file is given by
  its name, and a float by its \<open>repr\<close>.\<close>

record cli_command_options =
  options_file :: string
  options_min_distance :: string
  options_verbose :: bool
  options_params :: config

text \<open>
  What \<open>main.py\<close> imports or finds outside itself; \<open>'l\<close> is the type of the instruction
  sequence that a mode returns.
  \<^item> \<open>float_of_str s\<close> is \<open>float(s)\<close>: the \<open>repr\<close> of the float parsed, \<open>None\<close> for a
    \<open>ValueError\<close>;
  \<^item> \<open>message\<close> and \<open>execute\<close> are the attribute and the method of the classes \<open>FDM\<close>,
    \<open>Metal\<close> and \<open>LaserCut\<close> of \<open>gcode2as.cli\<close>, \<open>format_program\<close> is that of
    \<open>gcode2as.formatter\<close>;
  \<^item> \<open>locate\<close> is \<open>subprocess.check_output(["locate", "input_parameters.txt"])
    .decode().strip()\<close>;
  \<^item> \<open>read_ini path\<close> is the state of a fresh \<open>ConfigParser\<close> after \<open>read(path)\<close>, which
    leaves the parser empty when the file cannot be opened and raises when it cannot be
    parsed;
  \<^item> \<open>gcode_lines name\<close> is what iterating over \<open>open(name, 'r')\<close> yields at the end of
    the run.
  What \<open>execute\<close> and \<open>format_program\<close> do besides returning or raising is outside the
  model.  Writing a file is taken to succeed, on a POSIX system whose locale encoding is
  UTF-8, so that reading the output file back yields the text written to it.
\<close>

record 'l env =
  float_of_str :: "string \<Rightarrow> string option"
  message :: "mode_kind \<Rightarrow> string"
  execute :: "mode_kind \<Rightarrow> cli_command_options \<Rightarrow> exn + 'l option"
  format_program :: "'l \<Rightarrow> string \<Rightarrow> exn + string"
  locate :: "exn + string"
  read_ini :: "string \<Rightarrow> exn + config"
  gcode_lines :: "string \<Rightarrow> exn + string list"

text \<open>The arguments that \<open>click\<close> passes to \<open>cli\<close>: an option that was not given is
  \<open>None\<close>, a flag that was not given is \<open>False\<close>.  \<open>file_stem\<close> is
  \<open>Path(file.name).stem\<close>.\<close>

record cli_args =
  file_name :: string
  file_stem :: string
  flag_d :: bool
  flag_v :: bool
  opt_mode :: "string option"
  opt_min_dist :: "string option"
  opt_vase_mode :: "bool option"
  opt_welding_speed :: "string option"
  opt_inverted :: "bool option"
  opt_output :: "string option"
  opt_line_width :: "string option"
  opt_layer_height :: "string option"
  opt_first_layer_height :: "string option"

text \<open>The files written: \<open>Path(out_dir).joinpath(name)\<close>, or
  \<open>Path(file.name).absolute().parent.joinpath(name)\<close> when \<open>out_dir\<close> is \<open>None\<close>.\<close>

datatype path = Joinpath string string | BesideInput string string

text \<open>What a run does that can be seen from outside, in order.  \<open>PrintError p e\<close> is
  \<open>print(f"Error reading parameters from {p}: {e}")\<close>, \<open>EchoSaving p\<close> the message
  \<open>Saving generated file as ...\<close>, \<open>WriteConfig name c\<close> is \<open>c.write\<close> on the file \<open>name\<close>
  opened for writing, and \<open>WriteText p t\<close> leaves \<open>t\<close> as the content of \<open>p\<close>.\<close>

datatype event =
    PrintError string exn
  | Echo string
  | EchoSaving path
  | WriteConfig string config
  | Execute mode_kind cli_command_options
  | WriteText path string

datatype outcome = Returned | Raised exn

section \<open>\<open>main.py\<close>\<close>

definition DEFAULT_MIN_DISTANCE :: pyval where
  "DEFAULT_MIN_DISTANCE = PyInt 2"

definition DEFAULT_LINE_WIDTH :: pyval where
  "DEFAULT_LINE_WIDTH = PyFloat ''2.4''"

definition DEFAULT_LAYER_HEIGHT :: pyval where
  "DEFAULT_LAYER_HEIGHT = PyInt 1"

definition DEFAULT_FIRST_LAYER_HEIGHT :: pyval where
  "DEFAULT_FIRST_LAYER_HEIGHT = PyFloat ''1.2''"

text \<open>\<open>float(v)\<close>; the float of an integer is the one its decimal digits denote.\<close>

definition py_float :: "'l env \<Rightarrow> pyval \<Rightarrow> exn + string" where
  "py_float env v =
     (case v of
        PyFloat r \<Rightarrow> Inr r
      | PyStr s \<Rightarrow> (case float_of_str env s of None \<Rightarrow> Inl ValueError | Some r \<Rightarrow> Inr r)
      | PyInt i \<Rightarrow> (case float_of_str env (str_int i) of None \<Rightarrow> Inl ValueError | Some r \<Rightarrow> Inr r)
      | PyBool b \<Rightarrow> Inr (if b then ''1.0'' else ''0.0'')
      | PyNone \<Rightarrow> Inl TypeError)"

text \<open>
  \<open>read_input_parameters\<close>: the output printed and the parser, or \<open>None\<close>.  The call of
  \<open>locate\<close> stands before the \<open>try\<close>.  With no section in the parser,
  \<open>MissingSectionHeaderError\<close> is called with one argument of its three, a \<open>TypeError\<close>
  that the handler catches like any other exception.
\<close>

definition read_input_parameters :: "'l env \<Rightarrow> string \<Rightarrow> exn + (event list \<times> config option)" where
  "read_input_parameters env file_path =
     (case locate env of
        Inl e \<Rightarrow> Inl e
      | Inr located \<Rightarrow>
          (case read_ini env located of
             Inl e \<Rightarrow> Inr ([PrintError located e], None)
           | Inr config \<Rightarrow>
               if sections config = []
               then Inr ([PrintError located TypeError], None)
               else Inr ([], Some config)))"

text \<open>A loop over a dictionary whose body can raise.\<close>

fun for_each :: "('a \<Rightarrow> 's \<Rightarrow> exn + 's) \<Rightarrow> 'a list \<Rightarrow> 's \<Rightarrow> exn + 's" where
  "for_each body [] s = Inr s"
| "for_each body (x # xs) s =
     (case body x s of Inl e \<Rightarrow> Inl e | Inr s' \<Rightarrow> for_each body xs s')"

text \<open>\<open>update_parameters\<close>: the parser as written to \<open>input_parameters.txt\<close> in the
  working directory.\<close>

definition update_parameters :: "config \<Rightarrow> (string \<times> pyval) list \<Rightarrow> exn + (event list \<times> config)" where
  "update_parameters config params' =
     (case for_each (\<lambda>(key, v) c. config_set c key (py_str v)) params' config of
        Inl e \<Rightarrow> Inl e
      | Inr config' \<Rightarrow> Inr ([WriteConfig ''input_parameters.txt'' config'], config'))"

text \<open>\<open>parse_options_ini\<close>: \<open>'DEFAULT' in config\<close> holds of every parser, and
  \<open>config['DEFAULT'].get(key)\<close> interpolates the value.\<close>

definition parse_options_ini :: "'l env \<Rightarrow> string \<Rightarrow> exn + (string \<times> pyval) list" where
  "parse_options_ini env file_path =
     (case read_ini env file_path of
        Inl e \<Rightarrow> Inl e
      | Inr config \<Rightarrow>
          for_each (\<lambda>key options.
              (case config_get config key of
                 None \<Rightarrow> Inr (AList.update key PyNone options)
               | Some (Inl e) \<Rightarrow> Inl e
               | Some (Inr v) \<Rightarrow> Inr (AList.update key (PyStr v) options)))
            (map fst (defaults config)) [])"

definition update_parameters_based_on_input ::
  "'l env \<Rightarrow> (string \<times> pyval) list \<Rightarrow> pyval \<Rightarrow> pyval \<Rightarrow> pyval \<Rightarrow> pyval
   \<Rightarrow> exn + (pyval \<times> pyval \<times> pyval \<times> pyval)" where
  "update_parameters_based_on_input env options welding_speed line_width layer_height
       first_layer_height =
     (case (case map_of options ''layer_height'' of
              None \<Rightarrow> Inr layer_height
            | Some s \<Rightarrow> map_sum id PyFloat (py_float env s)) of
        Inl e \<Rightarrow> Inl e
      | Inr layer_height' \<Rightarrow>
     (case (case map_of options ''first_layer_height'' of
              None \<Rightarrow> Inr first_layer_height
            | Some s \<Rightarrow> map_sum id PyFloat (py_float env s)) of
        Inl e \<Rightarrow> Inl e
      | Inr first_layer_height' \<Rightarrow>
     (case (case map_of options ''line_width'' of
              None \<Rightarrow> Inr line_width
            | Some s \<Rightarrow> map_sum id PyFloat (py_float env s)) of
        Inl e \<Rightarrow> Inl e
      | Inr line_width' \<Rightarrow>
          Inr (welding_speed, line_width', layer_height', first_layer_height'))))"

subsection \<open>\<open>parse_3d_printing_stats\<close>\<close>

text \<open>
  The three patterns have the shape \<open>;\s*KEY\s*=\s*(GROUP)\<close>.  \<open>key_match key s\<close> matches
  \<open>;\s*KEY\s*=\s*\<close> at the start of \<open>s\<close> and returns the text that follows; no key starts
  with whitespace and \<open>=\<close> is none, so each \<open>\s*\<close> can only stop where the whitespace ends.
\<close>

definition key_match :: "string \<Rightarrow> string \<Rightarrow> string option" where
  "key_match key s =
     (case s of
        [] \<Rightarrow> None
      | c # r \<Rightarrow>
          if c \<noteq> CHR '';'' then None
          else (case after_prefix key (dropWhile isspace r) of
                  None \<Rightarrow> None
                | Some r1 \<Rightarrow>
                    (case dropWhile isspace r1 of
                       [] \<Rightarrow> None
                     | e # r2 \<Rightarrow> if e = CHR ''='' then Some (dropWhile isspace r2) else None)))"

text \<open>The group \<open>(.*)\<close>: up to the end of the line.\<close>

definition rest_of_line :: "string \<Rightarrow> string option" where
  "rest_of_line s = Some (takeWhile (\<lambda>c. c \<noteq> NL) s)"

definition isdigit :: "char \<Rightarrow> bool" where
  "isdigit c = (c \<in> set ''0123456789'')"

text \<open>The group \<open>(\d+\.?\d*)\<close>.\<close>

definition number :: "string \<Rightarrow> string option" where
  "number s =
     (let ds = takeWhile isdigit s; r = dropWhile isdigit s in
      if ds = [] then None
      else (case r of
              [] \<Rightarrow> Some ds
            | c # r' \<Rightarrow> if c = CHR ''.'' then Some (ds @ ''.'' @ takeWhile isdigit r') else Some ds))"

text \<open>\<open>pattern.search(line)\<close>: the match at the leftmost position that has one; its
  group 1.\<close>

fun search :: "(string \<Rightarrow> 'a option) \<Rightarrow> string \<Rightarrow> 'a option" where
  "search m [] = m []"
| "search m (c # cs) = (case m (c # cs) of Some g \<Rightarrow> Some g | None \<Rightarrow> search m cs)"

definition time_pattern :: "string \<Rightarrow> string option" where
  "time_pattern line =
     search (\<lambda>s. case key_match ''estimated printing time (normal mode)'' s of
                   None \<Rightarrow> None | Some r \<Rightarrow> rest_of_line r) line"

definition cost_pattern :: "string \<Rightarrow> string option" where
  "cost_pattern line =
     search (\<lambda>s. case key_match ''total filament cost'' s of
                   None \<Rightarrow> None | Some r \<Rightarrow> number r) line"

definition filament_used_pattern :: "string \<Rightarrow> string option" where
  "filament_used_pattern line =
     search (\<lambda>s. case key_match ''total filament used [g]'' s of
                   None \<Rightarrow> None | Some r \<Rightarrow> number r) line"

definition parse_3d_printing_stats :: "'l env \<Rightarrow> string \<Rightarrow> exn + stats" where
  "parse_3d_printing_stats env file_path =
     (case gcode_lines env file_path of
        Inl e \<Rightarrow> Inl e
      | Inr lines \<Rightarrow>
          for_each (\<lambda>line st.
              (let st1 = (case time_pattern line of
                            None \<Rightarrow> st
                          | Some g \<Rightarrow> st\<lparr>estimated_printing_time := PyStr (strip g)\<rparr>)
               in case (case cost_pattern line of
                          None \<Rightarrow> Inr st1
                        | Some g \<Rightarrow>
                            (case py_float env (PyStr g) of
                               Inl e \<Rightarrow> Inl e
                             | Inr x \<Rightarrow> Inr (st1\<lparr>total_filament_cost := PyFloat x\<rparr>))) of
                    Inl e \<Rightarrow> Inl e
                  | Inr st2 \<Rightarrow>
                      (case filament_used_pattern line of
                         None \<Rightarrow> Inr st2
                       | Some g \<Rightarrow>
                           (case py_float env (PyStr g) of
                              Inl e \<Rightarrow> Inl e
                            | Inr x \<Rightarrow> Inr (st2\<lparr>total_filament_used := PyFloat x\<rparr>)))))
            lines
            \<lparr>estimated_printing_time = PyNone, total_filament_cost = PyNone,
             total_filament_used = PyNone\<rparr>)"

subsection \<open>\<open>cli\<close>\<close>

text \<open>The dictionary \<open>modes\<close>, keyed by the messages of the three modes in the order
  \<open>FDM\<close>, \<open>Metal\<close>, \<open>LaserCut\<close>; a later mode replaces an earlier one with the same
  message.\<close>

definition modes :: "'l env \<Rightarrow> (string \<times> mode_kind) list" where
  "modes env = foldl (\<lambda>d mode. AList.update (message env mode) mode d) [] [FDM, Metal, LaserCut]"

definition default_params :: "(string \<times> pyval) list" where
  "default_params =
     [(''mode'', PyStr ''Metal 3D Printing''),
      (''min_dist'', DEFAULT_MIN_DISTANCE),
      (''vase_mode'', PyBool False),
      (''welding_speed'', PyFloat ''30.0''),
      (''inverted'', PyBool False),
      (''output'', PyStr ''./''),
      (''line_width'', DEFAULT_LINE_WIDTH),
      (''layer_height'', DEFAULT_LAYER_HEIGHT),
      (''first_layer_height'', DEFAULT_FIRST_LAYER_HEIGHT)]"

text \<open>\<open>d[key]\<close> for a key that the dictionary \<open>d\<close> has.\<close>

definition item :: "(string \<times> pyval) list \<Rightarrow> string \<Rightarrow> pyval" where
  "item d key = (case map_of d key of Some v \<Rightarrow> v | None \<Rightarrow> PyNone)"

text \<open>\<open>x or default\<close> for an optional string (\<open>None\<close> and \<open>''\<close> are false), and
  \<open>x if x is not None else default\<close> for an optional float and an optional boolean.\<close>

definition str_or :: "string option \<Rightarrow> pyval \<Rightarrow> pyval" where
  "str_or x dflt = (case x of None \<Rightarrow> dflt | Some s \<Rightarrow> if s = [] then dflt else PyStr s)"

definition float_else :: "string option \<Rightarrow> pyval \<Rightarrow> pyval" where
  "float_else x dflt = (case x of None \<Rightarrow> dflt | Some r \<Rightarrow> PyFloat r)"

definition bool_else :: "bool option \<Rightarrow> pyval \<Rightarrow> pyval" where
  "bool_else x dflt = (case x of None \<Rightarrow> dflt | Some b \<Rightarrow> PyBool b)"

definition param_dict :: "cli_args \<Rightarrow> (string \<times> pyval) list" where
  "param_dict args =
     [(''mode'', str_or (opt_mode args) (item default_params ''mode'')),
      (''min_dist'', float_else (opt_min_dist args) (item default_params ''min_dist'')),
      (''vase_mode'', bool_else (opt_vase_mode args) (item default_params ''vase_mode'')),
      (''welding_speed'', float_else (opt_welding_speed args) (item default_params ''welding_speed'')),
      (''inverted'', bool_else (opt_inverted args) (item default_params ''inverted'')),
      (''output'', str_or (opt_output args) (item default_params ''output'')),
      (''line_width'', float_else (opt_line_width args) (item default_params ''line_width'')),
      (''layer_height'', float_else (opt_layer_height args) (item default_params ''layer_height'')),
      (''first_layer_height'',
         float_else (opt_first_layer_height args) (item default_params ''first_layer_height''))]"

text \<open>Lines 163 to 168: the loop over \<open>default_params\<close> that updates the parser.\<close>

definition update_config :: "config \<Rightarrow> (string \<times> pyval) list \<Rightarrow> exn + config" where
  "update_config config pd =
     for_each (\<lambda>(key, default_value) c.
         (case map_of pd key of
            None \<Rightarrow> if \<not> config_has c key then config_set c key (py_str default_value) else Inr c
          | Some v \<Rightarrow> config_set c key (py_str v)))
       default_params config"

text \<open>Lines 174 to 177: \<open>mode\<close>, \<open>min_distance\<close>, \<open>use_different_output\<close> and \<open>out_dir\<close>,
  read in this order.\<close>

definition access_parameters ::
  "'l env \<Rightarrow> config \<Rightarrow> exn + (string \<times> pyval \<times> bool \<times> string option)" where
  "access_parameters env config =
     (case (case config_get config ''mode'' of
              None \<Rightarrow> Inr (py_str (item default_params ''mode''))
            | Some r \<Rightarrow> r) of
        Inl e \<Rightarrow> Inl e
      | Inr mode \<Rightarrow>
     (case (case config_get config ''min_dist'' of
              None \<Rightarrow> Inr (item default_params ''min_dist'')
            | Some (Inl e) \<Rightarrow> Inl e
            | Some (Inr s) \<Rightarrow> map_sum id PyFloat (py_float env (PyStr s))) of
        Inl e \<Rightarrow> Inl e
      | Inr min_distance \<Rightarrow>
     (case (case config_get config ''use_different_output'' of
              None \<Rightarrow> Inr False
            | Some (Inl e) \<Rightarrow> Inl e
            | Some (Inr s) \<Rightarrow> convert_to_boolean s) of
        Inl e \<Rightarrow> Inl e
      | Inr use_different_output \<Rightarrow>
     (case (case config_get config ''output'' of
              None \<Rightarrow> Inr None
            | Some (Inl e) \<Rightarrow> Inl e
            | Some (Inr s) \<Rightarrow> Inr (Some s)) of
        Inl e \<Rightarrow> Inl e
      | Inr out_dir \<Rightarrow> Inr (mode, min_distance, use_different_output, out_dir)))))"

text \<open>\<open>sep.join(xs)\<close>\<close>

fun join :: "string \<Rightarrow> string list \<Rightarrow> string" where
  "join sep [] = []"
| "join sep [x] = x"
| "join sep (x # y # ys) = x @ sep @ join sep (y # ys)"

definition invalid_mode_message :: "string \<Rightarrow> string list \<Rightarrow> string" where
  "invalid_mode_message mode keys =
     ''Error: The selected mode '' @ [CHR 0x27] @ mode @ [CHR 0x27]
     @ '' is not valid. Choose from: '' @ join '', '' keys @ ''.''"

text \<open>The local variables of \<open>cli\<close> that are in use after line 177.\<close>

record resolved =
  r_config :: config
  r_mode :: string
  r_min_distance :: pyval
  r_use_different_output :: bool
  r_out_dir :: "string option"
  r_welding_speed :: pyval
  r_line_width :: pyval
  r_layer_height :: pyval
  r_first_layer_height :: pyval

text \<open>
  \<open>cli\<close> is given in two parts.  Each returns the events of its part of the run; an
  exception that nothing catches ends the run where it is raised.

  Lines 119 to 177, the resolution of the parameters: the run ends there (\<open>Inl\<close>), or
  goes on with the variables resolved.
\<close>

definition resolve_parameters :: "'l env \<Rightarrow> cli_args \<Rightarrow> event list \<times> (outcome + resolved)" where
  "resolve_parameters env args =
     (case read_input_parameters env ''input_parameters.txt'' of
        Inl e \<Rightarrow> ([], Inl (Raised e))
      | Inr (out, None) \<Rightarrow> (out, Inl Returned)
      | Inr (out, Some config) \<Rightarrow>
     (case parse_options_ini env ''options.ini'' of
        Inl e \<Rightarrow> (out, Inl (Raised e))
      | Inr options \<Rightarrow>
     (case update_parameters_based_on_input env options
             (item (param_dict args) ''welding_speed'') (item (param_dict args) ''line_width'')
             (item (param_dict args) ''layer_height'')
             (item (param_dict args) ''first_layer_height'') of
        Inl e \<Rightarrow> (out, Inl (Raised e))
      | Inr (welding_speed, line_width, layer_height, first_layer_height) \<Rightarrow>
     (case update_config config (param_dict args) of
        Inl e \<Rightarrow> (out, Inl (Raised e))
      | Inr config1 \<Rightarrow>
     (case update_parameters config1 (param_dict args) of
        Inl e \<Rightarrow> (out, Inl (Raised e))
      | Inr (written, config2) \<Rightarrow>
     (case access_parameters env config2 of
        Inl e \<Rightarrow> (out @ written, Inl (Raised e))
      | Inr (mode, min_distance, use_different_output, out_dir) \<Rightarrow>
          (out @ written,
           Inr \<lparr>r_config = config2, r_mode = mode, r_min_distance = min_distance,
                r_use_different_output = use_different_output, r_out_dir = out_dir,
                r_welding_speed = welding_speed, r_line_width = line_width,
                r_layer_height = layer_height,
                r_first_layer_height = first_layer_height\<rparr>)))))))"

text \<open>Lines 179 to 262: the two validations, the translation, and the two writes of the
  output file.\<close>

definition run_mode :: "'l env \<Rightarrow> cli_args \<Rightarrow> resolved \<Rightarrow> event list \<times> outcome" where
  "run_mode env args r =
     (let filename = file_stem args in
      case map_of (modes env) (r_mode r) of
        None \<Rightarrow> ([Echo (invalid_mode_message (r_mode r) (map fst (modes env)))], Returned)
      | Some selected_mode \<Rightarrow>
     (case py_float env (r_min_distance r) of
        Inl e \<Rightarrow>
          if e = ValueError
          then ([Echo ''Error: Minimum distance must be a valid number.''], Returned)
          else ([], Raised e)
      | Inr min_distance \<Rightarrow>
     (let options = \<lparr>options_file = file_name args, options_min_distance = min_distance,
                     options_verbose = flag_v args, options_params = r_config r\<rparr>
      in
      case execute env selected_mode options of
        Inl e \<Rightarrow> ([Execute selected_mode options], Raised e)
      | Inr None \<Rightarrow> ([Execute selected_mode options], Returned)
      | Inr (Some lines_as) \<Rightarrow>
     (case format_program env lines_as filename of
        Inl e \<Rightarrow> ([Execute selected_mode options], Raised e)
      | Inr formatted \<Rightarrow>
     (let out_path = (case r_out_dir r of
                        None \<Rightarrow> BesideInput (file_name args) (filename @ ''.pg'')
                      | Some dir \<Rightarrow> Joinpath dir (filename @ ''.pg''))
      in
      case parse_3d_printing_stats env (file_name args) of
        Inl e \<Rightarrow>
          ([Execute selected_mode options, EchoSaving out_path, WriteText out_path formatted],
           Raised e)
      | Inr st \<Rightarrow>
          ([Execute selected_mode options, EchoSaving out_path, WriteText out_path formatted,
            WriteText out_path
              (remove_semicolon_lines formatted (r_welding_speed r) (r_line_width r)
                 (r_layer_height r) (r_first_layer_height r) st)],
           Returned))))))"

text \<open>\<open>cli\<close>: the events of the run and how it ends.\<close>

definition cli :: "'l env \<Rightarrow> cli_args \<Rightarrow> event list \<times> outcome" where
  "cli env args =
     (case resolve_parameters env args of
        (events, Inl ended) \<Rightarrow> (events, ended)
      | (events, Inr r) \<Rightarrow>
          (case run_mode env args r of (events', ended) \<Rightarrow> (events @ events', ended)))"

text \<open>The arguments of a call that gives the file only: the defaults of the \<open>click\<close>
  declarations.\<close>

definition no_options :: "string \<Rightarrow> string \<Rightarrow> cli_args" where
  "no_options name stem =
     \<lparr>file_name = name, file_stem = stem, flag_d = False, flag_v = False,
      opt_mode = None, opt_min_dist = None, opt_vase_mode = None, opt_welding_speed = None,
      opt_inverted = None, opt_output = None, opt_line_width = None, opt_layer_height = None,
      opt_first_layer_height = None\<rparr>"

section \<open>The path simplifier\<close>

text \<open>
  Modelled from the spec: the PathSimplifier of section 4.3, whose code belongs to the
  modes of \<open>gcode2as.cli\<close> that \<open>cli\<close> executes and is not among the sources.  A waypoint
  has its coordinates and the tool state.  The simplifier goes through the waypoints once,
  remembering the last one it retained: (c) a waypoint whose tool state differs from that
  of the waypoint before or after it is retained, (a) so are the first waypoint and an
  active last one, which begin and end a run, and (b) any other waypoint is dropped when
  its Euclidean distance to the last retained waypoint is below the threshold \<open>d\<close>.
\<close>

record waypoint =
  wp_x :: real
  wp_y :: real
  wp_z :: real
  tool_active :: bool

definition distance :: "waypoint \<Rightarrow> waypoint \<Rightarrow> real" where
  "distance a b = sqrt ((wp_x a - wp_x b)\<^sup>2 + (wp_y a - wp_y b)\<^sup>2 + (wp_z a - wp_z b)\<^sup>2)"

definition forced :: "waypoint \<Rightarrow> waypoint \<Rightarrow> waypoint list \<Rightarrow> bool" where
  "forced previous w following =
     (tool_active w \<noteq> tool_active previous
      \<or> (case following of [] \<Rightarrow> tool_active w | n # _ \<Rightarrow> tool_active n \<noteq> tool_active w))"

fun simplify_from :: "real \<Rightarrow> waypoint \<Rightarrow> waypoint \<Rightarrow> waypoint list \<Rightarrow> waypoint list" where
  "simplify_from d retained previous [] = []"
| "simplify_from d retained previous (w # ws) =
     (if \<not> forced previous w ws \<and> distance retained w < d
      then simplify_from d retained w ws
      else w # simplify_from d w w ws)"

definition path_simplifier :: "real \<Rightarrow> waypoint list \<Rightarrow> waypoint list" where
  "path_simplifier d ws = (case ws of [] \<Rightarrow> [] | w # rest \<Rightarrow> w # simplify_from d w w rest)"

section \<open>Example runs\<close>

text \<open>A parameter file found by \<open>locate\<close>, an \<open>options.ini\<close>, and an environment in which
  every mode returns two instructions.\<close>

definition example_config :: config where
  "example_config = \<lparr>defaults = [(''line_width'', ''9.9''), (''nozzle'', ''0.8'')],
                      sections = [(''printer'', [])]\<rparr>"

definition example_options :: config where
  "example_options = \<lparr>defaults = [(''line_width'', ''5.0'')], sections = []\<rparr>"

definition example_format :: "string list \<Rightarrow> string" where
  "example_format ls = concat (map (\<lambda>l. l @ [NL]) ls)"

definition example_env :: "string list env" where
  "example_env =
     \<lparr>float_of_str = (\<lambda>s. if s = ''2'' then Some ''2.0''
                           else if s = ''-1.0'' \<or> s = ''0.5'' \<or> s = ''5.0'' then Some s
                           else None),
      message = (\<lambda>k. case k of FDM \<Rightarrow> ''FDM 3D Printing'' | Metal \<Rightarrow> ''Metal 3D Printing''
                   | LaserCut \<Rightarrow> ''Laser Cutting''),
      execute = (\<lambda>k opts. Inr (Some [''MOVE 1 ; go'', ''STOP''])),
      format_program = (\<lambda>ls name. Inr (example_format ls)),
      locate = Inr ''/home/user/input_parameters.txt'',
      read_ini = (\<lambda>p. if p = ''/home/user/input_parameters.txt'' then Inr example_config
                       else if p = ''options.ini'' then Inr example_options
                       else Inr \<lparr>defaults = [], sections = []\<rparr>),
      gcode_lines = (\<lambda>name. Inr [])\<rparr>"

definition example_args :: cli_args where
  "example_args = (no_options ''part.gcode'' ''part'')\<lparr>opt_line_width := Some ''3.0''\<rparr>"

definition example_resolved_config :: config where
  "example_resolved_config =
     \<lparr>defaults = [(''line_width'', ''3.0''), (''nozzle'', ''0.8''), (''mode'', ''Metal 3D Printing''),
        (''min_dist'', ''2''), (''vase_mode'', ''False''),
        (''welding_speed'', ''30.0''), (''inverted'', ''False''),
        (''output'', ''./''), (''layer_height'', ''1''),
        (''first_layer_height'', ''1.2'')],
      sections = [(''printer'', [])]\<rparr>"

definition all_options_args :: cli_args where
  "all_options_args =
     \<lparr>file_name = ''part.gcode'', file_stem = ''part'', flag_d = False, flag_v = True,
      opt_mode = Some ''Laser Cutting'', opt_min_dist = Some ''0.5'', opt_vase_mode = Some True,
      opt_welding_speed = Some ''12.0'', opt_inverted = Some True, opt_output = Some ''out'',
      opt_line_width = Some ''3.0'', opt_layer_height = Some ''0.3'',
      opt_first_layer_height = Some ''0.4''\<rparr>"

definition all_options_config :: config where
  "all_options_config =
     \<lparr>defaults = [(''line_width'', ''3.0''), (''nozzle'', ''0.8''), (''mode'', ''Laser Cutting''),
        (''min_dist'', ''0.5''), (''vase_mode'', ''True''), (''welding_speed'', ''12.0''),
        (''inverted'', ''True''), (''output'', ''out''), (''layer_height'', ''0.3''),
        (''first_layer_height'', ''0.4'')],
      sections = [(''printer'', [])]\<rparr>"

definition negative_args :: cli_args where
  "negative_args = (no_options ''part.gcode'' ''part'')\<lparr>opt_min_dist := Some ''-1.0''\<rparr>"

definition negative_config :: config where
  "negative_config =
     \<lparr>defaults = [(''line_width'', ''2.4''), (''nozzle'', ''0.8''), (''mode'', ''Metal 3D Printing''),
        (''min_dist'', ''-1.0''), (''vase_mode'', ''False''), (''welding_speed'', ''30.0''),
        (''inverted'', ''False''), (''output'', ''./''), (''layer_height'', ''1''),
        (''first_layer_height'', ''1.2'')],
      sections = [(''printer'', [])]\<rparr>"

definition invalid_mode_args :: cli_args where
  "invalid_mode_args = (no_options ''part.gcode'' ''part'')\<lparr>opt_mode := Some ''FDM''\<rparr>"

definition invalid_mode_config :: config where
  "invalid_mode_config =
     \<lparr>defaults = [(''line_width'', ''2.4''), (''nozzle'', ''0.8''), (''mode'', ''FDM''),
        (''min_dist'', ''2''), (''vase_mode'', ''False''), (''welding_speed'', ''30.0''),
        (''inverted'', ''False''), (''output'', ''./''), (''layer_height'', ''1''),
        (''first_layer_height'', ''1.2'')],
      sections = [(''printer'', [])]\<rparr>"

definition default_config :: config where
  "default_config =
     \<lparr>defaults = [(''line_width'', ''2.4''), (''nozzle'', ''0.8''), (''mode'', ''Metal 3D Printing''),
        (''min_dist'', ''2''), (''vase_mode'', ''False''), (''welding_speed'', ''30.0''),
        (''inverted'', ''False''), (''output'', ''./''), (''layer_height'', ''1''),
        (''first_layer_height'', ''1.2'')],
      sections = [(''printer'', [])]\<rparr>"

text \<open>The environment without an \<open>options.ini\<close>, the one whose modes fail, the one in which
  \<open>locate\<close> fails, and the one whose located file has no section.\<close>

definition plain_env :: "string list env" where
  "plain_env = example_env\<lparr>read_ini :=
     (\<lambda>p. if p = ''/home/user/input_parameters.txt'' then Inr example_config
          else Inr \<lparr>defaults = [], sections = []\<rparr>)\<rparr>"

definition failing_env :: "string list env" where
  "failing_env = example_env\<lparr>execute := (\<lambda>k opts. Inr None)\<rparr>"

definition no_locate_env :: "string list env" where
  "no_locate_env = example_env\<lparr>locate := Inl CalledProcessError\<rparr>"

definition no_section_env :: "string list env" where
  "no_section_env = example_env\<lparr>read_ini :=
     (\<lambda>p. Inr \<lparr>defaults = [(''mode'', ''FDM 3D Printing'')], sections = []\<rparr>)\<rparr>"

text \<open>The environment without an \<open>options.ini\<close> whose three modes have the messages
  \<open>FDM\<close>, \<open>Metal\<close> and \<open>LaserCut\<close>.\<close>

definition spec_named_env :: "string list env" where
  "spec_named_env = plain_env\<lparr>message :=
     (\<lambda>k. case k of FDM \<Rightarrow> ''FDM'' | Metal \<Rightarrow> ''Metal'' | LaserCut \<Rightarrow> ''LaserCut'')\<rparr>"

section \<open>Facts about stripping\<close>

lemma not_isspace_semicolon: "\<not> isspace (CHR '';'')"
  by (simp add: isspace_def)

lemma isspace_TAB: "isspace TAB"
  by (simp add: isspace_def TAB_def)

lemma rstrip_take: "rstrip s = take (length s - length (takeWhile isspace (rev s))) s"
  by (simp add: rstrip_def dropWhile_eq_drop rev_drop)

lemma lstrip_head: "lstrip s = c # r \<Longrightarrow> \<not> isspace c"
  unfolding lstrip_def by (metis hd_dropWhile list.sel(1) list.distinct(1))

lemma strip_head: "strip s = c # r \<Longrightarrow> \<not> isspace c"
proof -
  assume a: "strip s = c # r"
  then have "take (length (lstrip s) - length (takeWhile isspace (rev (lstrip s)))) (lstrip s) = c # r"
    by (simp add: strip_def rstrip_take)
  then obtain r' where "lstrip s = c # r'"
    by (cases "lstrip s") (auto simp: take_Cons' split: if_splits)
  then show ?thesis by (rule lstrip_head)
qed

lemma set_rstrip: "set (rstrip s) \<subseteq> set s"
  by (simp add: rstrip_take set_take_subset)

lemma set_lstrip: "set (lstrip s) \<subseteq> set s"
  by (simp add: lstrip_def set_dropWhileD subsetI)

lemma set_strip: "set (strip s) \<subseteq> set s"
  unfolding strip_def using set_rstrip set_lstrip by blast

lemma rstrip_keep: "\<not> isspace c \<Longrightarrow> rstrip (xs @ c # ys) = xs @ c # rstrip ys"
  by (simp add: rstrip_def dropWhile_append)

lemma lstrip_keep: "\<not> isspace c \<Longrightarrow> lstrip (xs @ c # ys) = lstrip xs @ c # ys"
  by (simp add: lstrip_def dropWhile_append)

lemma lstrip_idem: "lstrip (lstrip s) = lstrip s"
  by (simp add: lstrip_def)

lemma strip_at_semicolon:
  assumes "CHR '';'' \<notin> set xs"
  shows "strip (xs @ CHR '';'' # ys) = lstrip xs @ CHR '';'' # rstrip ys"
  by (simp add: strip_def lstrip_keep rstrip_keep not_isspace_semicolon)

lemma semicolon_in_strip: "CHR '';'' \<in> set (strip s) \<longleftrightarrow> CHR '';'' \<in> set s"
proof
  assume "CHR '';'' \<in> set (strip s)"
  then show "CHR '';'' \<in> set s" using set_strip by blast
next
  assume "CHR '';'' \<in> set s"
  then obtain xs ys where "s = xs @ CHR '';'' # ys" "CHR '';'' \<notin> set xs"
    by (meson split_list_first)
  then show "CHR '';'' \<in> set (strip s)" by (simp add: strip_at_semicolon)
qed

text \<open>Trimming the line first does not change the trimmed text before the first
  semicolon.\<close>

lemma kept_text:
  assumes "CHR '';'' \<in> set s"
  shows "strip (split_first (CHR '';'') (strip s)) = strip (takeWhile (\<lambda>c. c \<noteq> CHR '';'') s)"
proof -
  from assms obtain xs ys where s: "s = xs @ CHR '';'' # ys" "CHR '';'' \<notin> set xs"
    by (meson split_list_first)
  have n: "CHR '';'' \<notin> set (lstrip xs)" using s(2) set_lstrip by blast
  have "split_first (CHR '';'') (strip s) = lstrip xs"
    using n by (auto simp: s strip_at_semicolon split_first_def takeWhile_tail)
  moreover have "takeWhile (\<lambda>c. c \<noteq> CHR '';'') s = xs"
    using s(2) by (auto simp: s(1) takeWhile_tail)
  ultimately show ?thesis by (simp add: strip_def lstrip_idem)
qed

section \<open>The post-processing pass\<close>

text \<open>A stripped line never starts with a tab, so neither pattern matches it.\<close>

lemma after_prefix_TAB: "after_prefix (TAB # p) (strip s) = None"
proof (cases "strip s")
  case Nil
  then show ?thesis by simp
next
  case (Cons c r)
  then have "\<not> isspace c" by (rule strip_head)
  with isspace_TAB have "TAB \<noteq> c" by auto
  with Cons show ?thesis by simp
qed

lemma patterns_never_match:
  "\<not> layer_height_pattern (strip s)" "\<not> first_layer_height_pattern (strip s)"
  by (simp_all add: layer_height_pattern_def first_layer_height_pattern_def after_prefix_TAB)

lemma clean_line_spec: "clean_line = spec_strip_comment"
  by (rule ext) (simp add: clean_line_def spec_strip_comment_def Let_def patterns_never_match
      semicolon_in_strip kept_text)

lemma foldl_append_concat: "foldl (\<lambda>acc x. acc @ f x) a xs = a @ concat (map f xs)"
  by (induction xs arbitrary: a) simp_all

lemma cleaned_lines_concat: "cleaned_lines ls = concat (map clean_line ls)"
  by (simp add: cleaned_lines_def foldl_append_concat)

lemma spec_strip_comment_no_semicolon:
  "l \<in> set (spec_strip_comment line) \<Longrightarrow> CHR '';'' \<notin> set l"
proof -
  assume a: "l \<in> set (spec_strip_comment line)"
  have "CHR '';'' \<notin> set (takeWhile (\<lambda>c. c \<noteq> CHR '';'') line)"
    by (auto dest: set_takeWhileD)
  then have "CHR '';'' \<notin> set (strip (takeWhile (\<lambda>c. c \<noteq> CHR '';'') line))"
    using set_strip by blast
  with a show ?thesis
    by (auto simp: spec_strip_comment_def Let_def NL_def split: if_splits)
qed

text \<open>
  C7.  The text written by the post-processing pass is the seven header lines (welding
  speed, line width, layer height, first layer height, and the three scraped statistics)
  followed by the lines read, in their order, where a line with a semicolon is replaced
  by the trimmed text before its first semicolon and a newline (or dropped when that
  text is empty) and a line without a semicolon is kept unchanged.
\<close>

theorem remove_semicolon_lines_spec:
  "remove_semicolon_lines input_text welding_speed line_width layer_height first_layer_height st =
     ''; Welding speed = '' @ py_str welding_speed @ [NL]
     @ ''; Line_width = '' @ py_str line_width @ [NL]
     @ ''; Layer_height = '' @ py_str layer_height @ [NL]
     @ ''; First_layer_height = '' @ py_str first_layer_height @ [NL]
     @ ''Estimated_printing_time = '' @ py_str (estimated_printing_time st) @ [NL]
     @ ''Total_filament_cost = '' @ py_str (total_filament_cost st) @ [NL]
     @ ''Total_filament_used = '' @ py_str (total_filament_used st) @ [NL]
     @ concat (concat (map spec_strip_comment (readlines input_text)))"
  by (simp add: remove_semicolon_lines_def header_lines_def cleaned_lines_concat clean_line_spec)

text \<open>
  C10.  In \<open>remove_semicolon_lines\<close> neither \<open>layer_height_pattern\<close> nor
  \<open>first_layer_height_pattern\<close> ever matches the stripped line, so the branch that would
  keep a comment line is never taken; no line that the loop appends to \<open>cleaned_lines\<close>
  contains a semicolon, and so the text written after the header lines contains none.
\<close>

theorem pattern_branch_unreachable:
  "\<not> layer_height_pattern (strip line) \<and> \<not> first_layer_height_pattern (strip line)
   \<and> (\<forall>l \<in> set (cleaned_lines ls). CHR '';'' \<notin> set l)
   \<and> (\<exists>body. remove_semicolon_lines input_text welding_speed line_width layer_height
                   first_layer_height st
                 = concat (header_lines welding_speed line_width layer_height
                     first_layer_height st) @ body
               \<and> CHR '';'' \<notin> set body)"
proof -
  have lines: "\<forall>l \<in> set (cleaned_lines ls). CHR '';'' \<notin> set l" for ls
    by (auto simp: cleaned_lines_concat clean_line_spec dest: spec_strip_comment_no_semicolon)
  then have "CHR '';'' \<notin> set (concat (cleaned_lines (readlines input_text)))"
    by auto
  then have "\<exists>body. remove_semicolon_lines input_text welding_speed line_width layer_height
                   first_layer_height st
                 = concat (header_lines welding_speed line_width layer_height
                     first_layer_height st) @ body
               \<and> CHR '';'' \<notin> set body"
    by (auto simp: remove_semicolon_lines_def)
  with lines show ?thesis by (simp add: patterns_never_match)
qed

theorem pattern_branch_unreachable_witness:
  "layer_height_pattern (TAB # ''; layer_height = 0.2'' @ [NL])
   \<and> \<not> layer_height_pattern (strip (TAB # ''; layer_height = 0.2'' @ [NL]))
   \<and> \<not> first_layer_height_pattern (strip (TAB # ''; layer_height = 0.2'' @ [NL]))
   \<and> cleaned_lines [TAB # ''; layer_height = 0.2'' @ [NL], ''G1 X1 ; move'' @ [NL], ''M2'' @ [NL]]
       = [''G1 X1'' @ [NL], ''M2'' @ [NL]]
   \<and> CHR '';'' \<notin> set (''G1 X1'' @ [NL]) \<and> CHR '';'' \<notin> set (''M2'' @ [NL])"
  using pattern_branch_unreachable
    [of "TAB # ''; layer_height = 0.2'' @ [NL]"
        "[TAB # ''; layer_height = 0.2'' @ [NL], ''G1 X1 ; move'' @ [NL], ''M2'' @ [NL]]"]
  by (simp add: cleaned_lines_def clean_line_def strip_def lstrip_def rstrip_def isspace_def
      split_first_def NL_def TAB_def layer_height_pattern_def first_layer_height_pattern_def
      assignment_tail_def)

section \<open>Facts about the parser, the resolution and the run\<close>

lemma remove_escaped_plain: "CHR ''%'' \<notin> set v \<Longrightarrow> remove_escaped v = v"
  by (induction v rule: remove_escaped.induct) auto

lemma keycre_match_plain: "c \<noteq> CHR ''%'' \<Longrightarrow> keycre_match (c # cs) = None"
  by (simp add: keycre_match_def)

lemma remove_keys_plain: "CHR ''%'' \<notin> set v \<Longrightarrow> remove_keys v = v"
  by (induction v) (auto simp: keycre_match_plain)

lemma before_set_plain: "CHR ''%'' \<notin> set v \<Longrightarrow> before_set v"
  by (simp add: before_set_def remove_escaped_plain remove_keys_plain)

lemma interpolate_plain_depth:
  assumes "CHR ''%'' \<notin> set v" and "depth \<le> MAX_INTERPOLATION_DEPTH"
  shows "interpolate_some m depth v = Inr v"
proof -
  from assms(1) have "dropWhile (\<lambda>c. c \<noteq> CHR ''%'') v = []"
    by (auto simp: dropWhile_eq_Nil_conv)
  with assms(2) show ?thesis
    by (subst interpolate_some.simps) (simp add: Let_def)
qed

lemma interpolate_plain:
  "CHR ''%'' \<notin> set v \<Longrightarrow> interpolate_some m 1 v = Inr v"
  "CHR ''%'' \<notin> set v \<Longrightarrow> interpolate_some m (Suc 0) v = Inr v"
  by (simp_all add: interpolate_plain_depth MAX_INTERPOLATION_DEPTH_def)

lemma config_set_result:
  "config_set c key v = Inr c' \<Longrightarrow> c' = c\<lparr>defaults := AList.update (lower key) v (defaults c)\<rparr>"
  by (auto simp: config_set_def split: if_splits)

lemma config_set_plain:
  "CHR ''%'' \<notin> set v \<Longrightarrow> config_set c key v = Inr (c\<lparr>defaults := AList.update (lower key) v (defaults c)\<rparr>)"
  by (simp add: config_set_def before_set_plain)

lemma for_each_config_set:
  assumes "for_each (\<lambda>(key, v) c. config_set c key (g key v)) kvs c = Inr c'"
  shows "sections c' = sections c
     \<and> map_of (defaults c') = fold (\<lambda>(key, v) m. m(lower key \<mapsto> g key v)) kvs (map_of (defaults c))"
  using assms
proof (induction kvs arbitrary: c)
  case Nil
  then show ?case by simp
next
  case (Cons kv kvs)
  obtain key v where kv: "kv = (key, v)" by (cases kv)
  from Cons.prems obtain c1 where c1: "config_set c key (g key v) = Inr c1"
      and rest: "for_each (\<lambda>(key, v) c. config_set c key (g key v)) kvs c1 = Inr c'"
    by (auto simp: kv split: sum.splits)
  from c1 have "c1 = c\<lparr>defaults := AList.update (lower key) (g key v) (defaults c)\<rparr>"
    by (rule config_set_result)
  then have "sections c1 = sections c"
    "map_of (defaults c1) = (map_of (defaults c))(lower key \<mapsto> g key v)"
    by (simp_all add: update_conv')
  with Cons.IH [OF rest] show ?case by (simp add: kv)
qed

lemma lower_keys:
  "lower ''mode'' = ''mode''" "lower ''min_dist'' = ''min_dist''"
  "lower ''vase_mode'' = ''vase_mode''" "lower ''welding_speed'' = ''welding_speed''"
  "lower ''inverted'' = ''inverted''" "lower ''output'' = ''output''"
  "lower ''line_width'' = ''line_width''" "lower ''layer_height'' = ''layer_height''"
  "lower ''first_layer_height'' = ''first_layer_height''"
  "lower ''use_different_output'' = ''use_different_output''"
  by (simp_all add: lower_def lower_char_def)

lemma for_each_cong:
  "(\<And>x s. x \<in> set xs \<Longrightarrow> f x s = g x s) \<Longrightarrow> for_each f xs s = for_each g xs s"
  by (induction xs arbitrary: s) (auto split: sum.splits)

lemma param_dict_keys: "map fst (param_dict args) = map fst default_params"
  by (simp add: param_dict_def default_params_def)

lemma param_dict_has:
  assumes "(key, v) \<in> set default_params"
  shows "map_of (param_dict args) key = Some (item (param_dict args) key)"
proof -
  have "key \<in> fst ` set (param_dict args)"
    using assms param_dict_keys [of args] by (metis image_eqI fst_conv set_map)
  then obtain w where "map_of (param_dict args) key = Some w"
    by (metis map_of_eq_None_iff not_Some_eq)
  then show ?thesis by (simp add: item_def)
qed

lemma update_config_for_each:
  "update_config config (param_dict args) =
     for_each (\<lambda>(key, v) c. config_set c key (py_str (item (param_dict args) key))) default_params config"
  unfolding update_config_def
  by (rule for_each_cong) (auto simp: param_dict_has)

lemma fold_defaults:
  "fold (\<lambda>(key, v) m. m(lower key \<mapsto> g key v)) default_params m0 =
     m0(''mode'' \<mapsto> g ''mode'' (PyStr ''Metal 3D Printing''),
        ''min_dist'' \<mapsto> g ''min_dist'' DEFAULT_MIN_DISTANCE,
        ''vase_mode'' \<mapsto> g ''vase_mode'' (PyBool False),
        ''welding_speed'' \<mapsto> g ''welding_speed'' (PyFloat ''30.0''),
        ''inverted'' \<mapsto> g ''inverted'' (PyBool False),
        ''output'' \<mapsto> g ''output'' (PyStr ''./''),
        ''line_width'' \<mapsto> g ''line_width'' DEFAULT_LINE_WIDTH,
        ''layer_height'' \<mapsto> g ''layer_height'' DEFAULT_LAYER_HEIGHT,
        ''first_layer_height'' \<mapsto> g ''first_layer_height'' DEFAULT_FIRST_LAYER_HEIGHT)"
  by (simp add: default_params_def lower_keys)

lemma update_config_result:
  assumes "update_config config (param_dict args) = Inr c1"
  shows "sections c1 = sections config"
    and "map_of (defaults c1) key =
       (if key \<in> fst ` set default_params then Some (py_str (item (param_dict args) key))
        else map_of (defaults config) key)"
proof -
  from assms have *: "for_each (\<lambda>(key, v) c. config_set c key (py_str (item (param_dict args) key))) default_params config = Inr c1"
    by (simp add: update_config_for_each)
  from for_each_config_set [OF *] show "sections c1 = sections config" by simp
  from for_each_config_set [OF *]
  have "map_of (defaults c1) = fold (\<lambda>(key, v) m. m(lower key \<mapsto> py_str (item (param_dict args) key))) default_params (map_of (defaults config))"
    by simp
  then show "map_of (defaults c1) key =
       (if key \<in> fst ` set default_params then Some (py_str (item (param_dict args) key))
        else map_of (defaults config) key)"
    by (simp add: fold_defaults) (simp add: default_params_def)
qed

lemma fold_param_dict:
  "fold (\<lambda>(key, v) m. m(lower key \<mapsto> py_str v)) (param_dict args) m0 key =
     (if key \<in> fst ` set default_params then Some (py_str (item (param_dict args) key))
      else m0 key)"
  by (simp add: param_dict_def lower_keys item_def) (simp add: default_params_def)

lemma update_parameters_result:
  assumes "update_parameters c1 (param_dict args) = Inr (written, c2)"
  shows "written = [WriteConfig ''input_parameters.txt'' c2]"
    and "sections c2 = sections c1"
    and "map_of (defaults c2) key =
       (if key \<in> fst ` set default_params then Some (py_str (item (param_dict args) key))
        else map_of (defaults c1) key)"
proof -
  from assms have *: "for_each (\<lambda>(key, v) c. config_set c key (py_str v)) (param_dict args) c1 = Inr c2"
    and w: "written = [WriteConfig ''input_parameters.txt'' c2]"
    by (auto simp: update_parameters_def split: sum.splits)
  show "written = [WriteConfig ''input_parameters.txt'' c2]" by (rule w)
  from for_each_config_set [OF *] show "sections c2 = sections c1" by simp
  from for_each_config_set [OF *]
  have "map_of (defaults c2) = fold (\<lambda>(key, v) m. m(lower key \<mapsto> py_str v)) (param_dict args) (map_of (defaults c1))"
    by simp
  then show "map_of (defaults c2) key =
       (if key \<in> fst ` set default_params then Some (py_str (item (param_dict args) key))
        else map_of (defaults c1) key)"
    by (simp add: fold_param_dict)
qed

lemma read_input_parameters_Some:
  assumes "read_input_parameters env p = Inr (out, Some config)"
  shows "out = [] \<and> (\<exists>located. locate env = Inr located \<and> read_ini env located = Inr config)
         \<and> sections config \<noteq> []"
  using assms by (auto simp: read_input_parameters_def split: sum.splits if_splits)

lemma resolve_parameters_Inr:
  assumes "resolve_parameters env args = (events, Inr r)"
  obtains located config options where
      "locate env = Inr located" and "read_ini env located = Inr config"
    and "sections config \<noteq> []"
    and "parse_options_ini env ''options.ini'' = Inr options"
    and "update_parameters_based_on_input env options
               (item (param_dict args) ''welding_speed'') (item (param_dict args) ''line_width'')
               (item (param_dict args) ''layer_height'')
               (item (param_dict args) ''first_layer_height'')
             = Inr (r_welding_speed r, r_line_width r, r_layer_height r, r_first_layer_height r)"
    and "sections (r_config r) = sections config"
    and "\<And>key. map_of (defaults (r_config r)) key =
               (if key \<in> fst ` set default_params
                then Some (py_str (item (param_dict args) key))
                else map_of (defaults config) key)"
    and "access_parameters env (r_config r)
             = Inr (r_mode r, r_min_distance r, r_use_different_output r, r_out_dir r)"
    and "events = [WriteConfig ''input_parameters.txt'' (r_config r)]"
proof -
  from assms obtain out config options ws lw lh flh c1 written c2 md mdist udo od where
    rd: "read_input_parameters env ''input_parameters.txt'' = Inr (out, Some config)"
    and po: "parse_options_ini env ''options.ini'' = Inr options"
    and up: "update_parameters_based_on_input env options
               (item (param_dict args) ''welding_speed'') (item (param_dict args) ''line_width'')
               (item (param_dict args) ''layer_height'')
               (item (param_dict args) ''first_layer_height'') = Inr (ws, lw, lh, flh)"
    and uc: "update_config config (param_dict args) = Inr c1"
    and upd: "update_parameters c1 (param_dict args) = Inr (written, c2)"
    and ac: "access_parameters env c2 = Inr (md, mdist, udo, od)"
    and ev: "events = out @ written"
    and r: "r = \<lparr>r_config = c2, r_mode = md, r_min_distance = mdist,
                r_use_different_output = udo, r_out_dir = od,
                r_welding_speed = ws, r_line_width = lw,
                r_layer_height = lh, r_first_layer_height = flh\<rparr>"
    unfolding resolve_parameters_def
    by (auto split: sum.splits option.splits prod.splits)
  from read_input_parameters_Some [OF rd] obtain located where
    out: "out = []" and loc: "locate env = Inr located" "read_ini env located = Inr config"
    "sections config \<noteq> []" by blast
  have keys: "map_of (defaults c2) key =
               (if key \<in> fst ` set default_params
                then Some (py_str (item (param_dict args) key))
                else map_of (defaults config) key)" for key
    using update_parameters_result(3) [OF upd, of key] update_config_result(2) [OF uc, of key]
    by simp
  have secs: "sections c2 = sections config"
    using update_parameters_result(2) [OF upd] update_config_result(1) [OF uc] by simp
  show ?thesis
    by (rule that [of located config options])
      (use loc po up ac keys secs update_parameters_result(1) [OF upd] in
        \<open>simp_all add: r ev out\<close>)
qed

lemma resolve_parameters_events:
  assumes "resolve_parameters env args = (events, x)"
  shows "events = [] \<or> (\<exists>p e. events = [PrintError p e]) \<or> (\<exists>n c. events = [WriteConfig n c])"
  using assms unfolding resolve_parameters_def
  by (auto simp: read_input_parameters_def update_parameters_def
      split: sum.splits option.splits prod.splits if_splits)

lemma resolve_parameters_quiet:
  assumes "resolve_parameters env args = (events, x)"
  shows "Execute k opts \<notin> set events" "WriteText p t \<notin> set events"
  using resolve_parameters_events [OF assms] by auto

lemma run_mode_Execute:
  assumes "Execute k opts \<in> set (fst (run_mode env args r))"
  shows "map_of (modes env) (r_mode r) = Some k
       \<and> py_float env (r_min_distance r) = Inr (options_min_distance opts)
       \<and> opts = \<lparr>options_file = file_name args,
                  options_min_distance = options_min_distance opts,
                  options_verbose = flag_v args, options_params = r_config r\<rparr>"
  using assms unfolding run_mode_def
  by (auto simp: Let_def split: sum.splits option.splits if_splits)

lemma cli_Execute:
  assumes "Execute k opts \<in> set (fst (cli env args))"
  shows "\<exists>events r. resolve_parameters env args = (events, Inr r)
       \<and> map_of (modes env) (r_mode r) = Some k
       \<and> py_float env (r_min_distance r) = Inr (options_min_distance opts)
       \<and> opts = \<lparr>options_file = file_name args,
                  options_min_distance = options_min_distance opts,
                  options_verbose = flag_v args, options_params = r_config r\<rparr>"
proof (cases "resolve_parameters env args")
  case (Pair events x)
  note q = resolve_parameters_quiet(1) [OF Pair, of k opts]
  show ?thesis
  proof (cases x)
    case (Inl ended)
    with Pair assms q show ?thesis by (simp add: cli_def)
  next
    case (Inr r)
    with Pair assms q have "Execute k opts \<in> set (fst (run_mode env args r))"
      by (auto simp: cli_def split: prod.splits)
    from run_mode_Execute [OF this] Pair Inr show ?thesis by simp
  qed
qed

lemma run_mode_None:
  assumes "map_of (modes env) (r_mode r) = Some k"
    and "py_float env (r_min_distance r) = Inr x"
    and "execute env k \<lparr>options_file = file_name args, options_min_distance = x,
                  options_verbose = flag_v args, options_params = r_config r\<rparr> = Inr None"
  shows "run_mode env args r = ([Execute k \<lparr>options_file = file_name args, options_min_distance = x,
                  options_verbose = flag_v args, options_params = r_config r\<rparr>], Returned)"
  using assms by (simp add: run_mode_def)

lemma item_param_dict:
  "item (param_dict args) ''mode'' = str_or (opt_mode args) (PyStr ''Metal 3D Printing'')"
  "item (param_dict args) ''min_dist'' = float_else (opt_min_dist args) (PyInt 2)"
  "item (param_dict args) ''vase_mode'' = bool_else (opt_vase_mode args) (PyBool False)"
  "item (param_dict args) ''welding_speed'' = float_else (opt_welding_speed args) (PyFloat ''30.0'')"
  "item (param_dict args) ''inverted'' = bool_else (opt_inverted args) (PyBool False)"
  "item (param_dict args) ''output'' = str_or (opt_output args) (PyStr ''./'')"
  "item (param_dict args) ''line_width'' = float_else (opt_line_width args) (PyFloat ''2.4'')"
  "item (param_dict args) ''layer_height'' = float_else (opt_layer_height args) (PyInt 1)"
  "item (param_dict args) ''first_layer_height'' = float_else (opt_first_layer_height args) (PyFloat ''1.2'')"
  by (simp_all add: param_dict_def item_def default_params_def DEFAULT_MIN_DISTANCE_def
      DEFAULT_LINE_WIDTH_def DEFAULT_LAYER_HEIGHT_def DEFAULT_FIRST_LAYER_HEIGHT_def)

lemma default_params_keys:
  "fst ` set default_params = {''mode'', ''min_dist'', ''vase_mode'', ''welding_speed'', ''inverted'',
      ''output'', ''line_width'', ''layer_height'', ''first_layer_height''}"
  by (auto simp: default_params_def)

lemma header_values:
  assumes "update_parameters_based_on_input env options ws lw lh flh = Inr (ws', lw', lh', flh')"
  shows "ws' = ws"
    and "map_of options ''line_width'' = None \<Longrightarrow> lw' = lw"
    and "map_of options ''line_width'' = Some v \<Longrightarrow> py_float env v = Inr y \<Longrightarrow> lw' = PyFloat y"
    and "map_of options ''layer_height'' = None \<Longrightarrow> lh' = lh"
    and "map_of options ''layer_height'' = Some v \<Longrightarrow> py_float env v = Inr y \<Longrightarrow> lh' = PyFloat y"
    and "map_of options ''first_layer_height'' = None \<Longrightarrow> flh' = flh"
    and "map_of options ''first_layer_height'' = Some v \<Longrightarrow> py_float env v = Inr y \<Longrightarrow> flh' = PyFloat y"
  using assms unfolding update_parameters_based_on_input_def
  by (auto split: sum.splits option.splits)

lemma run_mode_completed:
  assumes "run_mode env args r = (before @ [WriteText p text], Returned)"
  shows "\<exists>formatted st. text = remove_semicolon_lines formatted (r_welding_speed r)
            (r_line_width r) (r_layer_height r) (r_first_layer_height r) st"
  using assms unfolding run_mode_def
  by (auto simp: Let_def append_eq_Cons_conv Cons_eq_append_conv
      split: sum.splits option.splits if_splits)

lemma cli_completed:
  assumes "resolve_parameters env args = (events, Inr r)"
    and "cli env args = (before @ [WriteText p text], Returned)"
  shows "\<exists>formatted st. text = remove_semicolon_lines formatted (r_welding_speed r)
            (r_line_width r) (r_layer_height r) (r_first_layer_height r) st"
proof -
  obtain tr ended where run: "run_mode env args r = (tr, ended)" by (cases "run_mode env args r")
  with assms have cli: "events @ tr = before @ [WriteText p text]" "ended = Returned"
    by (simp_all add: cli_def)
  from assms(1) obtain c where "events = [WriteConfig ''input_parameters.txt'' c]"
    by (rule resolve_parameters_Inr)
  with cli(1) obtain before' where "tr = before' @ [WriteText p text]"
    by (cases tr rule: rev_cases) auto
  with run cli(2) run_mode_completed show ?thesis by blast
qed

lemma modes_message: "map_of (modes env) s = Some k \<Longrightarrow> message env k = s"
  by (auto simp: modes_def update_conv' split: if_splits)

lemma modes_keys:
  "set (map fst (modes env)) = {message env FDM, message env Metal, message env LaserCut}"
  by (auto simp: modes_def)

lemma access_parameters_plain:
  assumes "access_parameters env c = Inr (md, mdist, udo, od)"
  shows "map_of (defaults c) ''mode'' = Some m \<Longrightarrow> CHR ''%'' \<notin> set m \<Longrightarrow> md = m"
    and "map_of (defaults c) ''min_dist'' = Some x \<Longrightarrow> CHR ''%'' \<notin> set x
         \<Longrightarrow> \<exists>y. float_of_str env x = Some y \<and> mdist = PyFloat y"
    and "map_of (defaults c) ''output'' = Some dir \<Longrightarrow> CHR ''%'' \<notin> set dir \<Longrightarrow> od = Some dir"
proof -
  assume "map_of (defaults c) ''mode'' = Some m" "CHR ''%'' \<notin> set m"
  with assms show "md = m"
    by (auto simp: access_parameters_def config_get_def lower_keys interpolate_plain
        split: sum.splits)
next
  assume "map_of (defaults c) ''min_dist'' = Some x" "CHR ''%'' \<notin> set x"
  with assms show "\<exists>y. float_of_str env x = Some y \<and> mdist = PyFloat y"
    by (auto simp: access_parameters_def config_get_def lower_keys interpolate_plain py_float_def
        split: sum.splits option.splits)
next
  assume "map_of (defaults c) ''output'' = Some dir" "CHR ''%'' \<notin> set dir"
  with assms show "od = Some dir"
    by (auto simp: access_parameters_def config_get_def lower_keys interpolate_plain
        split: sum.splits option.splits)
qed

lemma resolved_keys:
  assumes "resolve_parameters env args = (events, Inr r)"
  shows "map_of (defaults (r_config r)) ''mode''
           = Some (py_str (str_or (opt_mode args) (PyStr ''Metal 3D Printing'')))"
    and "map_of (defaults (r_config r)) ''min_dist''
           = Some (py_str (float_else (opt_min_dist args) (PyInt 2)))"
    and "map_of (defaults (r_config r)) ''vase_mode''
           = Some (py_str (bool_else (opt_vase_mode args) (PyBool False)))"
    and "map_of (defaults (r_config r)) ''welding_speed''
           = Some (py_str (float_else (opt_welding_speed args) (PyFloat ''30.0'')))"
    and "map_of (defaults (r_config r)) ''inverted''
           = Some (py_str (bool_else (opt_inverted args) (PyBool False)))"
    and "map_of (defaults (r_config r)) ''output''
           = Some (py_str (str_or (opt_output args) (PyStr ''./'')))"
    and "map_of (defaults (r_config r)) ''line_width''
           = Some (py_str (float_else (opt_line_width args) (PyFloat ''2.4'')))"
    and "map_of (defaults (r_config r)) ''layer_height''
           = Some (py_str (float_else (opt_layer_height args) (PyInt 1)))"
    and "map_of (defaults (r_config r)) ''first_layer_height''
           = Some (py_str (float_else (opt_first_layer_height args) (PyFloat ''1.2'')))"
proof -
  have "key \<in> fst ` set default_params \<Longrightarrow>
       map_of (defaults (r_config r)) key = Some (py_str (item (param_dict args) key))" for key
    by (rule resolve_parameters_Inr [OF assms]) simp
  from this [unfolded default_params_keys] show
    "map_of (defaults (r_config r)) ''mode''
           = Some (py_str (str_or (opt_mode args) (PyStr ''Metal 3D Printing'')))"
    "map_of (defaults (r_config r)) ''min_dist''
           = Some (py_str (float_else (opt_min_dist args) (PyInt 2)))"
    "map_of (defaults (r_config r)) ''vase_mode''
           = Some (py_str (bool_else (opt_vase_mode args) (PyBool False)))"
    "map_of (defaults (r_config r)) ''welding_speed''
           = Some (py_str (float_else (opt_welding_speed args) (PyFloat ''30.0'')))"
    "map_of (defaults (r_config r)) ''inverted''
           = Some (py_str (bool_else (opt_inverted args) (PyBool False)))"
    "map_of (defaults (r_config r)) ''output''
           = Some (py_str (str_or (opt_output args) (PyStr ''./'')))"
    "map_of (defaults (r_config r)) ''line_width''
           = Some (py_str (float_else (opt_line_width args) (PyFloat ''2.4'')))"
    "map_of (defaults (r_config r)) ''layer_height''
           = Some (py_str (float_else (opt_layer_height args) (PyInt 1)))"
    "map_of (defaults (r_config r)) ''first_layer_height''
           = Some (py_str (float_else (opt_first_layer_height args) (PyFloat ''1.2'')))"
    by (simp_all add: item_param_dict)
qed

lemma resolved_header:
  assumes "resolve_parameters env args = (events, Inr r)"
    and "parse_options_ini env ''options.ini'' = Inr options"
  shows "update_parameters_based_on_input env options
           (float_else (opt_welding_speed args) (PyFloat ''30.0''))
           (float_else (opt_line_width args) (PyFloat ''2.4''))
           (float_else (opt_layer_height args) (PyInt 1))
           (float_else (opt_first_layer_height args) (PyFloat ''1.2''))
         = Inr (r_welding_speed r, r_line_width r, r_layer_height r, r_first_layer_height r)"
  by (rule resolve_parameters_Inr [OF assms(1)]) (use assms(2) in \<open>simp add: item_param_dict\<close>)

lemma resolved_access:
  assumes "resolve_parameters env args = (events, Inr r)"
  shows "access_parameters env (r_config r)
             = Inr (r_mode r, r_min_distance r, r_use_different_output r, r_out_dir r)"
  by (rule resolve_parameters_Inr [OF assms(1)])

lemma cli_Execute_resolved:
  assumes "resolve_parameters env args = (events, Inr r)"
    and "Execute k opts \<in> set (fst (cli env args))"
  shows "options_params opts = r_config r" and "message env k = r_mode r"
    and "py_float env (r_min_distance r) = Inr (options_min_distance opts)"
    and "options_verbose opts = flag_v args" and "options_file opts = file_name args"
proof -
  from cli_Execute [OF assms(2)] assms(1) have
    m: "map_of (modes env) (r_mode r) = Some k"
    and f: "py_float env (r_min_distance r) = Inr (options_min_distance opts)"
    and o: "opts = \<lparr>options_file = file_name args,
                  options_min_distance = options_min_distance opts,
                  options_verbose = flag_v args, options_params = r_config r\<rparr>"
    by auto
  show "py_float env (r_min_distance r) = Inr (options_min_distance opts)" by (rule f)
  show "message env k = r_mode r" using m by (rule modes_message)
  show "options_params opts = r_config r" by (subst o) simp
  show "options_verbose opts = flag_v args" by (subst o) simp
  show "options_file opts = file_name args" by (subst o) simp
qed

lemma run_mode_invalid:
  assumes "map_of (modes env) (r_mode r) = None"
  shows "run_mode env args r =
           ([Echo (invalid_mode_message (r_mode r) (map fst (modes env)))], Returned)"
  using assms by (simp add: run_mode_def)

lemma run_mode_executes:
  assumes "map_of (modes env) (r_mode r) = Some k"
    and "py_float env (r_min_distance r) = Inr x"
  shows "Execute k \<lparr>options_file = file_name args, options_min_distance = x,
                  options_verbose = flag_v args, options_params = r_config r\<rparr>
         \<in> set (fst (run_mode env args r))"
  using assms by (simp add: run_mode_def Let_def split: sum.splits option.splits)

lemma cli_executes:
  assumes "resolve_parameters env args = (events, Inr r)"
    and "map_of (modes env) (r_mode r) = Some k"
    and "py_float env (r_min_distance r) = Inr x"
  shows "Execute k \<lparr>options_file = file_name args, options_min_distance = x,
                  options_verbose = flag_v args, options_params = r_config r\<rparr>
         \<in> set (fst (cli env args))"
  using run_mode_executes [OF assms(2,3), of args]
  by (auto simp: cli_def assms(1) split: prod.splits)

lemma cli_invalid:
  assumes "resolve_parameters env args = (events, Inr r)"
    and "r_mode r \<notin> {message env FDM, message env Metal, message env LaserCut}"
  shows "cli env args =
           ([WriteConfig ''input_parameters.txt'' (r_config r),
             Echo (invalid_mode_message (r_mode r) (map fst (modes env)))], Returned)"
proof -
  from assms(2) have "r_mode r \<notin> fst ` set (modes env)"
    using modes_keys [of env] by simp
  then have "map_of (modes env) (r_mode r) = None"
    by (simp add: map_of_eq_None_iff)
  then have run: "run_mode env args r =
           ([Echo (invalid_mode_message (r_mode r) (map fst (modes env)))], Returned)"
    by (rule run_mode_invalid)
  have ev: "events = [WriteConfig ''input_parameters.txt'' (r_config r)]"
    by (rule resolve_parameters_Inr [OF assms(1)])
  show ?thesis by (simp add: cli_def assms(1) run ev)
qed

section \<open>The example runs, evaluated\<close>

lemma example_env_simps:
  "float_of_str example_env = (\<lambda>s. if s = ''2'' then Some ''2.0''
                           else if s = ''-1.0'' \<or> s = ''0.5'' \<or> s = ''5.0'' then Some s
                           else None)"
  "message example_env = (\<lambda>k. case k of FDM \<Rightarrow> ''FDM 3D Printing'' | Metal \<Rightarrow> ''Metal 3D Printing''
                   | LaserCut \<Rightarrow> ''Laser Cutting'')"
  "execute example_env = (\<lambda>k opts. Inr (Some [''MOVE 1 ; go'', ''STOP'']))"
  "format_program example_env = (\<lambda>ls name. Inr (example_format ls))"
  "locate example_env = Inr ''/home/user/input_parameters.txt''"
  "read_ini example_env = (\<lambda>p. if p = ''/home/user/input_parameters.txt'' then Inr example_config
                       else if p = ''options.ini'' then Inr example_options
                       else Inr \<lparr>defaults = [], sections = []\<rparr>)"
  "gcode_lines example_env = (\<lambda>name. Inr [])"
  by (simp_all add: example_env_def)

lemma example_parse_options:
  "parse_options_ini example_env ''options.ini'' = Inr [(''line_width'', PyStr ''5.0'')]"
  by (simp add: parse_options_ini_def example_env_simps example_options_def config_get_def
      lower_keys interpolate_plain)

lemma example_modes:
  "modes example_env = [(''FDM 3D Printing'', FDM), (''Metal 3D Printing'', Metal), (''Laser Cutting'', LaserCut)]"
  by (simp add: modes_def example_env_simps)

lemma str_int_digits: "str_int 1 = ''1''" "str_int 2 = ''2''"
  by (simp_all add: str_int_def str_nat.simps)

lemma example_stats:
  "parse_3d_printing_stats example_env name =
     Inr \<lparr>estimated_printing_time = PyNone, total_filament_cost = PyNone,
             total_filament_used = PyNone\<rparr>"
  by (simp add: parse_3d_printing_stats_def example_env_simps)

lemmas resolve_eval =
  resolve_parameters_def read_input_parameters_def parse_options_ini_def config_get_def
  update_config_def update_parameters_def access_parameters_def
  update_parameters_based_on_input_def param_dict_def default_params_def item_def str_or_def
  float_else_def bool_else_def DEFAULT_MIN_DISTANCE_def DEFAULT_LINE_WIDTH_def
  DEFAULT_LAYER_HEIGHT_def DEFAULT_FIRST_LAYER_HEIGHT_def config_set_plain interpolate_plain
  lower_keys str_int_digits py_float_def convert_to_boolean_def example_env_simps
  example_config_def example_options_def no_options_def

lemma example_resolve:
  "resolve_parameters example_env example_args =
     ([WriteConfig ''input_parameters.txt'' example_resolved_config],
      Inr \<lparr>r_config = example_resolved_config, r_mode = ''Metal 3D Printing'',
           r_min_distance = PyFloat ''2.0'', r_use_different_output = False,
           r_out_dir = Some ''./'', r_welding_speed = PyFloat ''30.0'',
           r_line_width = PyFloat ''5.0'', r_layer_height = PyInt 1,
           r_first_layer_height = PyFloat ''1.2''\<rparr>)"
  by (simp add: resolve_eval example_args_def example_resolved_config_def)

lemma all_options_resolve:
  "resolve_parameters example_env all_options_args =
     ([WriteConfig ''input_parameters.txt'' all_options_config],
      Inr \<lparr>r_config = all_options_config, r_mode = ''Laser Cutting'',
           r_min_distance = PyFloat ''0.5'', r_use_different_output = False,
           r_out_dir = Some ''out'', r_welding_speed = PyFloat ''12.0'',
           r_line_width = PyFloat ''5.0'', r_layer_height = PyFloat ''0.3'',
           r_first_layer_height = PyFloat ''0.4''\<rparr>)"
  by (simp add: resolve_eval all_options_args_def all_options_config_def)

lemma negative_resolve:
  "resolve_parameters example_env negative_args =
     ([WriteConfig ''input_parameters.txt'' negative_config],
      Inr \<lparr>r_config = negative_config, r_mode = ''Metal 3D Printing'',
           r_min_distance = PyFloat ''-1.0'', r_use_different_output = False,
           r_out_dir = Some ''./'', r_welding_speed = PyFloat ''30.0'',
           r_line_width = PyFloat ''5.0'', r_layer_height = PyInt 1,
           r_first_layer_height = PyFloat ''1.2''\<rparr>)"
  by (simp add: resolve_eval negative_args_def negative_config_def)

lemma invalid_mode_resolve:
  "resolve_parameters example_env invalid_mode_args =
     ([WriteConfig ''input_parameters.txt'' invalid_mode_config],
      Inr \<lparr>r_config = invalid_mode_config, r_mode = ''FDM'',
           r_min_distance = PyFloat ''2.0'', r_use_different_output = False,
           r_out_dir = Some ''./'', r_welding_speed = PyFloat ''30.0'',
           r_line_width = PyFloat ''5.0'', r_layer_height = PyInt 1,
           r_first_layer_height = PyFloat ''1.2''\<rparr>)"
  by (simp add: resolve_eval invalid_mode_args_def invalid_mode_config_def)

lemma default_resolve:
  "resolve_parameters plain_env (no_options ''part.gcode'' ''part'') =
     ([WriteConfig ''input_parameters.txt'' default_config],
      Inr \<lparr>r_config = default_config, r_mode = ''Metal 3D Printing'',
           r_min_distance = PyFloat ''2.0'', r_use_different_output = False,
           r_out_dir = Some ''./'', r_welding_speed = PyFloat ''30.0'',
           r_line_width = PyFloat ''2.4'', r_layer_height = PyInt 1,
           r_first_layer_height = PyFloat ''1.2''\<rparr>)"
  by (simp add: resolve_eval plain_env_def default_config_def)

lemma failing_resolve:
  "resolve_parameters failing_env example_args =
     ([WriteConfig ''input_parameters.txt'' example_resolved_config],
      Inr \<lparr>r_config = example_resolved_config, r_mode = ''Metal 3D Printing'',
           r_min_distance = PyFloat ''2.0'', r_use_different_output = False,
           r_out_dir = Some ''./'', r_welding_speed = PyFloat ''30.0'',
           r_line_width = PyFloat ''5.0'', r_layer_height = PyInt 1,
           r_first_layer_height = PyFloat ''1.2''\<rparr>)"
  by (simp add: resolve_eval failing_env_def example_args_def example_resolved_config_def)

lemma example_cleaned:
  "concat (cleaned_lines (readlines (example_format [''MOVE 1 ; go'', ''STOP''])))
     = ''MOVE 1'' @ [NL] @ ''STOP'' @ [NL]"
  by (simp add: cleaned_lines_concat clean_line_spec example_format_def
      spec_strip_comment_def readlines_def NL_def CR_def
      strip_def lstrip_def rstrip_def isspace_def)

lemmas run_eval =
  run_mode_def Let_def example_modes py_float_def example_env_simps example_stats
  remove_semicolon_lines_def header_lines_def example_cleaned str_int_digits

lemma example_run:
  "cli example_env example_args =
     ([WriteConfig ''input_parameters.txt'' example_resolved_config,
       Execute Metal \<lparr>options_file = ''part.gcode'', options_min_distance = ''2.0'',
                       options_verbose = False, options_params = example_resolved_config\<rparr>,
       EchoSaving (Joinpath ''./'' ''part.pg''),
       WriteText (Joinpath ''./'' ''part.pg'') (example_format [''MOVE 1 ; go'', ''STOP'']),
       WriteText (Joinpath ''./'' ''part.pg'')
         (''; Welding speed = 30.0'' @ [NL] @ ''; Line_width = 5.0'' @ [NL]
          @ ''; Layer_height = 1'' @ [NL] @ ''; First_layer_height = 1.2'' @ [NL]
          @ ''Estimated_printing_time = None'' @ [NL] @ ''Total_filament_cost = None'' @ [NL]
          @ ''Total_filament_used = None'' @ [NL] @ ''MOVE 1'' @ [NL] @ ''STOP'' @ [NL])],
      Returned)"
  unfolding cli_def example_resolve
  by (simp add: run_eval example_args_def no_options_def)

lemma negative_run:
  "cli example_env negative_args =
     ([WriteConfig ''input_parameters.txt'' negative_config,
       Execute Metal \<lparr>options_file = ''part.gcode'', options_min_distance = ''-1.0'',
                       options_verbose = False, options_params = negative_config\<rparr>,
       EchoSaving (Joinpath ''./'' ''part.pg''),
       WriteText (Joinpath ''./'' ''part.pg'') (example_format [''MOVE 1 ; go'', ''STOP'']),
       WriteText (Joinpath ''./'' ''part.pg'')
         (''; Welding speed = 30.0'' @ [NL] @ ''; Line_width = 5.0'' @ [NL]
          @ ''; Layer_height = 1'' @ [NL] @ ''; First_layer_height = 1.2'' @ [NL]
          @ ''Estimated_printing_time = None'' @ [NL] @ ''Total_filament_cost = None'' @ [NL]
          @ ''Total_filament_used = None'' @ [NL] @ ''MOVE 1'' @ [NL] @ ''STOP'' @ [NL])],
      Returned)"
  unfolding cli_def negative_resolve
  by (simp add: run_eval negative_args_def no_options_def)

lemma all_options_run:
  "cli example_env all_options_args =
     ([WriteConfig ''input_parameters.txt'' all_options_config,
       Execute LaserCut \<lparr>options_file = ''part.gcode'', options_min_distance = ''0.5'',
                       options_verbose = True, options_params = all_options_config\<rparr>,
       EchoSaving (Joinpath ''out'' ''part.pg''),
       WriteText (Joinpath ''out'' ''part.pg'') (example_format [''MOVE 1 ; go'', ''STOP'']),
       WriteText (Joinpath ''out'' ''part.pg'')
         (''; Welding speed = 12.0'' @ [NL] @ ''; Line_width = 5.0'' @ [NL]
          @ ''; Layer_height = 0.3'' @ [NL] @ ''; First_layer_height = 0.4'' @ [NL]
          @ ''Estimated_printing_time = None'' @ [NL] @ ''Total_filament_cost = None'' @ [NL]
          @ ''Total_filament_used = None'' @ [NL] @ ''MOVE 1'' @ [NL] @ ''STOP'' @ [NL])],
      Returned)"
  unfolding cli_def all_options_resolve
  by (simp add: run_eval all_options_args_def)

lemma invalid_mode_run:
  "cli example_env invalid_mode_args =
     ([WriteConfig ''input_parameters.txt'' invalid_mode_config,
       Echo (''Error: The selected mode '' @ [CHR 0x27] @ ''FDM'' @ [CHR 0x27]
             @ '' is not valid. Choose from: FDM 3D Printing, Metal 3D Printing, Laser Cutting.'')],
      Returned)"
  unfolding cli_def invalid_mode_resolve
  by (simp add: run_eval invalid_mode_message_def)

lemma failing_run:
  "cli failing_env example_args =
     ([WriteConfig ''input_parameters.txt'' example_resolved_config,
       Execute Metal \<lparr>options_file = ''part.gcode'', options_min_distance = ''2.0'',
                       options_verbose = False, options_params = example_resolved_config\<rparr>],
      Returned)"
  unfolding cli_def failing_resolve
  by (simp add: run_mode_def modes_def py_float_def failing_env_def
      example_env_simps example_args_def no_options_def)

lemma default_run:
  "cli plain_env (no_options ''part.gcode'' ''part'') =
     ([WriteConfig ''input_parameters.txt'' default_config,
       Execute Metal \<lparr>options_file = ''part.gcode'', options_min_distance = ''2.0'',
                       options_verbose = False, options_params = default_config\<rparr>,
       EchoSaving (Joinpath ''./'' ''part.pg''),
       WriteText (Joinpath ''./'' ''part.pg'') (example_format [''MOVE 1 ; go'', ''STOP'']),
       WriteText (Joinpath ''./'' ''part.pg'')
         (''; Welding speed = 30.0'' @ [NL] @ ''; Line_width = 2.4'' @ [NL]
          @ ''; Layer_height = 1'' @ [NL] @ ''; First_layer_height = 1.2'' @ [NL]
          @ ''Estimated_printing_time = None'' @ [NL] @ ''Total_filament_cost = None'' @ [NL]
          @ ''Total_filament_used = None'' @ [NL] @ ''MOVE 1'' @ [NL] @ ''STOP'' @ [NL])],
      Returned)"
  unfolding cli_def default_resolve
  by (simp add: run_mode_def Let_def modes_def py_float_def plain_env_def
      example_env_simps no_options_def parse_3d_printing_stats_def
      remove_semicolon_lines_def header_lines_def example_cleaned str_int_digits)

lemma plain_modes:
  "modes plain_env = [(''FDM 3D Printing'', FDM), (''Metal 3D Printing'', Metal), (''Laser Cutting'', LaserCut)]"
  by (simp add: modes_def plain_env_def example_env_simps)

lemma spec_named_resolve:
  "resolve_parameters spec_named_env (no_options ''part.gcode'' ''part'') =
     ([WriteConfig ''input_parameters.txt'' default_config],
      Inr \<lparr>r_config = default_config, r_mode = ''Metal 3D Printing'',
           r_min_distance = PyFloat ''2.0'', r_use_different_output = False,
           r_out_dir = Some ''./'', r_welding_speed = PyFloat ''30.0'',
           r_line_width = PyFloat ''2.4'', r_layer_height = PyInt 1,
           r_first_layer_height = PyFloat ''1.2''\<rparr>)"
  by (simp add: resolve_eval spec_named_env_def plain_env_def default_config_def)

lemma spec_named_modes:
  "modes spec_named_env = [(''FDM'', FDM), (''Metal'', Metal), (''LaserCut'', LaserCut)]"
  by (simp add: modes_def spec_named_env_def)

lemma spec_named_message:
  "message spec_named_env = (\<lambda>k. case k of FDM \<Rightarrow> ''FDM'' | Metal \<Rightarrow> ''Metal'' | LaserCut \<Rightarrow> ''LaserCut'')"
  by (simp add: spec_named_env_def)

section \<open>The claims about \<open>cli\<close>\<close>

text \<open>
  C1, as amended.  When the resolution of the parameters completes, a value given by a
  flag of the command line has replaced the built-in default and whatever the located
  parameter file holds: for \<open>mode\<close> and \<open>output\<close> (when not empty), \<open>min_dist\<close>, \<open>vase_mode\<close>,
  \<open>welding_speed\<close>, \<open>inverted\<close>, \<open>line_width\<close>, \<open>layer_height\<close> and \<open>first_layer_height\<close>, the
  configuration passed to \<open>execute\<close> stores the text of the flag's value under that key;
  the mode executed is the one whose message is the flag's \<open>mode\<close>, and the minimum distance
  passed is the float of the flag's \<open>min_dist\<close> (for values without a percent sign, which
  the parser would interpolate).  In the metadata header the flag's \<open>welding_speed\<close> is
  printed; the flag's \<open>line_width\<close>, \<open>layer_height\<close> and \<open>first_layer_height\<close> are printed
  only when \<open>options.ini\<close> does not define that key: a value of \<open>options.ini\<close> is printed in
  place of the flag's.
\<close>

theorem cli_flag_precedence:
  assumes "resolve_parameters env args = (events, Inr r)"
  shows "(\<forall>m. opt_mode args = Some m \<longrightarrow> m \<noteq> [] \<longrightarrow>
            map_of (defaults (r_config r)) ''mode'' = Some m)
       \<and> (\<forall>x. opt_min_dist args = Some x \<longrightarrow>
            map_of (defaults (r_config r)) ''min_dist'' = Some x)
       \<and> (\<forall>b. opt_vase_mode args = Some b \<longrightarrow>
            map_of (defaults (r_config r)) ''vase_mode'' = Some (if b then ''True'' else ''False''))
       \<and> (\<forall>x. opt_welding_speed args = Some x \<longrightarrow>
            map_of (defaults (r_config r)) ''welding_speed'' = Some x)
       \<and> (\<forall>b. opt_inverted args = Some b \<longrightarrow>
            map_of (defaults (r_config r)) ''inverted'' = Some (if b then ''True'' else ''False''))
       \<and> (\<forall>dir. opt_output args = Some dir \<longrightarrow> dir \<noteq> [] \<longrightarrow>
            map_of (defaults (r_config r)) ''output'' = Some dir)
       \<and> (\<forall>x. opt_line_width args = Some x \<longrightarrow>
            map_of (defaults (r_config r)) ''line_width'' = Some x)
       \<and> (\<forall>x. opt_layer_height args = Some x \<longrightarrow>
            map_of (defaults (r_config r)) ''layer_height'' = Some x)
       \<and> (\<forall>x. opt_first_layer_height args = Some x \<longrightarrow>
            map_of (defaults (r_config r)) ''first_layer_height'' = Some x)
       \<and> (\<forall>m. opt_mode args = Some m \<longrightarrow> m \<noteq> [] \<longrightarrow> CHR ''%'' \<notin> set m \<longrightarrow> r_mode r = m)
       \<and> (\<forall>x. opt_min_dist args = Some x \<longrightarrow> CHR ''%'' \<notin> set x \<longrightarrow>
            (\<exists>y. float_of_str env x = Some y \<and> r_min_distance r = PyFloat y))
       \<and> (\<forall>k opts. Execute k opts \<in> set (fst (cli env args)) \<longrightarrow>
            options_params opts = r_config r \<and> message env k = r_mode r
            \<and> py_float env (r_min_distance r) = Inr (options_min_distance opts))
       \<and> (\<forall>x. opt_welding_speed args = Some x \<longrightarrow> r_welding_speed r = PyFloat x)
       \<and> (\<forall>options x. parse_options_ini env ''options.ini'' = Inr options \<longrightarrow>
            opt_line_width args = Some x \<longrightarrow>
              (map_of options ''line_width'' = None \<longrightarrow> r_line_width r = PyFloat x)
            \<and> (\<forall>v y. map_of options ''line_width'' = Some v \<longrightarrow> py_float env v = Inr y \<longrightarrow>
                   r_line_width r = PyFloat y))
       \<and> (\<forall>options x. parse_options_ini env ''options.ini'' = Inr options \<longrightarrow>
            opt_layer_height args = Some x \<longrightarrow>
              (map_of options ''layer_height'' = None \<longrightarrow> r_layer_height r = PyFloat x)
            \<and> (\<forall>v y. map_of options ''layer_height'' = Some v \<longrightarrow> py_float env v = Inr y \<longrightarrow>
                   r_layer_height r = PyFloat y))
       \<and> (\<forall>options x. parse_options_ini env ''options.ini'' = Inr options \<longrightarrow>
            opt_first_layer_height args = Some x \<longrightarrow>
              (map_of options ''first_layer_height'' = None \<longrightarrow> r_first_layer_height r = PyFloat x)
            \<and> (\<forall>v y. map_of options ''first_layer_height'' = Some v \<longrightarrow>
                   py_float env v = Inr y \<longrightarrow> r_first_layer_height r = PyFloat y))
       \<and> (\<forall>before p text. cli env args = (before @ [WriteText p text], Returned) \<longrightarrow>
            (\<exists>formatted st. text = remove_semicolon_lines formatted (r_welding_speed r)
               (r_line_width r) (r_layer_height r) (r_first_layer_height r) st))"
proof -
  note keys = resolved_keys [OF assms]
  note acc = access_parameters_plain [OF resolved_access [OF assms]]
  have stored:
    "\<forall>m. opt_mode args = Some m \<longrightarrow> m \<noteq> [] \<longrightarrow> map_of (defaults (r_config r)) ''mode'' = Some m"
    "\<forall>x. opt_min_dist args = Some x \<longrightarrow> map_of (defaults (r_config r)) ''min_dist'' = Some x"
    "\<forall>b. opt_vase_mode args = Some b \<longrightarrow>
        map_of (defaults (r_config r)) ''vase_mode'' = Some (if b then ''True'' else ''False'')"
    "\<forall>x. opt_welding_speed args = Some x \<longrightarrow>
        map_of (defaults (r_config r)) ''welding_speed'' = Some x"
    "\<forall>b. opt_inverted args = Some b \<longrightarrow>
        map_of (defaults (r_config r)) ''inverted'' = Some (if b then ''True'' else ''False'')"
    "\<forall>dir. opt_output args = Some dir \<longrightarrow> dir \<noteq> [] \<longrightarrow>
        map_of (defaults (r_config r)) ''output'' = Some dir"
    "\<forall>x. opt_line_width args = Some x \<longrightarrow> map_of (defaults (r_config r)) ''line_width'' = Some x"
    "\<forall>x. opt_layer_height args = Some x \<longrightarrow>
        map_of (defaults (r_config r)) ''layer_height'' = Some x"
    "\<forall>x. opt_first_layer_height args = Some x \<longrightarrow>
        map_of (defaults (r_config r)) ''first_layer_height'' = Some x"
    by (simp_all add: keys str_or_def float_else_def bool_else_def)
  have used:
    "\<forall>m. opt_mode args = Some m \<longrightarrow> m \<noteq> [] \<longrightarrow> CHR ''%'' \<notin> set m \<longrightarrow> r_mode r = m"
    "\<forall>x. opt_min_dist args = Some x \<longrightarrow> CHR ''%'' \<notin> set x \<longrightarrow>
        (\<exists>y. float_of_str env x = Some y \<and> r_min_distance r = PyFloat y)"
    using stored(1,2) acc(1,2) by blast+
  have exec: "\<forall>k opts. Execute k opts \<in> set (fst (cli env args)) \<longrightarrow>
            options_params opts = r_config r \<and> message env k = r_mode r
            \<and> py_float env (r_min_distance r) = Inr (options_min_distance opts)"
    using cli_Execute_resolved [OF assms] by blast
  have header: "\<forall>x. opt_welding_speed args = Some x \<longrightarrow> r_welding_speed r = PyFloat x"
    "\<forall>options x. parse_options_ini env ''options.ini'' = Inr options \<longrightarrow>
            opt_line_width args = Some x \<longrightarrow>
              (map_of options ''line_width'' = None \<longrightarrow> r_line_width r = PyFloat x)
            \<and> (\<forall>v y. map_of options ''line_width'' = Some v \<longrightarrow> py_float env v = Inr y \<longrightarrow>
                   r_line_width r = PyFloat y)"
    "\<forall>options x. parse_options_ini env ''options.ini'' = Inr options \<longrightarrow>
            opt_layer_height args = Some x \<longrightarrow>
              (map_of options ''layer_height'' = None \<longrightarrow> r_layer_height r = PyFloat x)
            \<and> (\<forall>v y. map_of options ''layer_height'' = Some v \<longrightarrow> py_float env v = Inr y \<longrightarrow>
                   r_layer_height r = PyFloat y)"
    "\<forall>options x. parse_options_ini env ''options.ini'' = Inr options \<longrightarrow>
            opt_first_layer_height args = Some x \<longrightarrow>
              (map_of options ''first_layer_height'' = None \<longrightarrow> r_first_layer_height r = PyFloat x)
            \<and> (\<forall>v y. map_of options ''first_layer_height'' = Some v \<longrightarrow>
                   py_float env v = Inr y \<longrightarrow> r_first_layer_height r = PyFloat y)"
  proof -
    obtain options where po: "parse_options_ini env ''options.ini'' = Inr options"
      by (rule resolve_parameters_Inr [OF assms])
    note hv = header_values [OF resolved_header [OF assms po]]
    show "\<forall>x. opt_welding_speed args = Some x \<longrightarrow> r_welding_speed r = PyFloat x"
      using hv(1) by (simp add: float_else_def)
    show "\<forall>options x. parse_options_ini env ''options.ini'' = Inr options \<longrightarrow>
            opt_line_width args = Some x \<longrightarrow>
              (map_of options ''line_width'' = None \<longrightarrow> r_line_width r = PyFloat x)
            \<and> (\<forall>v y. map_of options ''line_width'' = Some v \<longrightarrow> py_float env v = Inr y \<longrightarrow>
                   r_line_width r = PyFloat y)"
      using hv(2,3) by (auto simp: po float_else_def)
    show "\<forall>options x. parse_options_ini env ''options.ini'' = Inr options \<longrightarrow>
            opt_layer_height args = Some x \<longrightarrow>
              (map_of options ''layer_height'' = None \<longrightarrow> r_layer_height r = PyFloat x)
            \<and> (\<forall>v y. map_of options ''layer_height'' = Some v \<longrightarrow> py_float env v = Inr y \<longrightarrow>
                   r_layer_height r = PyFloat y)"
      using hv(4,5) by (auto simp: po float_else_def)
    show "\<forall>options x. parse_options_ini env ''options.ini'' = Inr options \<longrightarrow>
            opt_first_layer_height args = Some x \<longrightarrow>
              (map_of options ''first_layer_height'' = None \<longrightarrow> r_first_layer_height r = PyFloat x)
            \<and> (\<forall>v y. map_of options ''first_layer_height'' = Some v \<longrightarrow>
                   py_float env v = Inr y \<longrightarrow> r_first_layer_height r = PyFloat y)"
      using hv(6,7) by (auto simp: po float_else_def)
  qed
  have final: "\<forall>before p text. cli env args = (before @ [WriteText p text], Returned) \<longrightarrow>
            (\<exists>formatted st. text = remove_semicolon_lines formatted (r_welding_speed r)
               (r_line_width r) (r_layer_height r) (r_first_layer_height r) st)"
    using cli_completed [OF assms] by blast
  from stored used exec header final show ?thesis by (intro conjI)
qed

lemma all_options_fields:
  "file_name all_options_args = ''part.gcode''" "flag_v all_options_args = True"
  "opt_mode all_options_args = Some ''Laser Cutting''"
  "opt_min_dist all_options_args = Some ''0.5''" "opt_vase_mode all_options_args = Some True"
  "opt_welding_speed all_options_args = Some ''12.0''"
  "opt_inverted all_options_args = Some True" "opt_output all_options_args = Some ''out''"
  "opt_line_width all_options_args = Some ''3.0''"
  "opt_layer_height all_options_args = Some ''0.3''"
  "opt_first_layer_height all_options_args = Some ''0.4''"
  by (simp_all add: all_options_args_def)

theorem cli_flag_precedence_witness:
  "map_of (defaults all_options_config) ''mode'' = Some ''Laser Cutting''
   \<and> map_of (defaults all_options_config) ''min_dist'' = Some ''0.5''
   \<and> map_of (defaults all_options_config) ''vase_mode'' = Some ''True''
   \<and> map_of (defaults all_options_config) ''welding_speed'' = Some ''12.0''
   \<and> map_of (defaults all_options_config) ''inverted'' = Some ''True''
   \<and> map_of (defaults all_options_config) ''output'' = Some ''out''
   \<and> map_of (defaults all_options_config) ''line_width'' = Some ''3.0''
   \<and> map_of (defaults all_options_config) ''layer_height'' = Some ''0.3''
   \<and> map_of (defaults all_options_config) ''first_layer_height'' = Some ''0.4''
   \<and> map_of (defaults example_config) ''line_width'' = Some ''9.9''
   \<and> parse_options_ini example_env ''options.ini'' = Inr [(''line_width'', PyStr ''5.0'')]
   \<and> (\<exists>formatted st. ''; Welding speed = 12.0'' @ [NL] @ ''; Line_width = 5.0'' @ [NL]
          @ ''; Layer_height = 0.3'' @ [NL] @ ''; First_layer_height = 0.4'' @ [NL]
          @ ''Estimated_printing_time = None'' @ [NL] @ ''Total_filament_cost = None'' @ [NL]
          @ ''Total_filament_used = None'' @ [NL] @ ''MOVE 1'' @ [NL] @ ''STOP'' @ [NL]
        = remove_semicolon_lines formatted (PyFloat ''12.0'') (PyFloat ''5.0'') (PyFloat ''0.3'')
            (PyFloat ''0.4'') st)"
proof -
  note th = cli_flag_precedence [OF all_options_resolve]
  have stored: "map_of (defaults all_options_config) ''mode'' = Some ''Laser Cutting''
   \<and> map_of (defaults all_options_config) ''min_dist'' = Some ''0.5''
   \<and> map_of (defaults all_options_config) ''vase_mode'' = Some ''True''
   \<and> map_of (defaults all_options_config) ''welding_speed'' = Some ''12.0''
   \<and> map_of (defaults all_options_config) ''inverted'' = Some ''True''
   \<and> map_of (defaults all_options_config) ''output'' = Some ''out''
   \<and> map_of (defaults all_options_config) ''line_width'' = Some ''3.0''
   \<and> map_of (defaults all_options_config) ''layer_height'' = Some ''0.3''
   \<and> map_of (defaults all_options_config) ''first_layer_height'' = Some ''0.4''"
    using th by (auto simp: all_options_fields)
  have run: "cli example_env all_options_args =
     ([WriteConfig ''input_parameters.txt'' all_options_config,
       Execute LaserCut \<lparr>options_file = ''part.gcode'', options_min_distance = ''0.5'',
                       options_verbose = True, options_params = all_options_config\<rparr>,
       EchoSaving (Joinpath ''out'' ''part.pg''),
       WriteText (Joinpath ''out'' ''part.pg'') (example_format [''MOVE 1 ; go'', ''STOP''])]
      @ [WriteText (Joinpath ''out'' ''part.pg'')
         (''; Welding speed = 12.0'' @ [NL] @ ''; Line_width = 5.0'' @ [NL]
          @ ''; Layer_height = 0.3'' @ [NL] @ ''; First_layer_height = 0.4'' @ [NL]
          @ ''Estimated_printing_time = None'' @ [NL] @ ''Total_filament_cost = None'' @ [NL]
          @ ''Total_filament_used = None'' @ [NL] @ ''MOVE 1'' @ [NL] @ ''STOP'' @ [NL])],
      Returned)"
    using all_options_run by simp
  from th have "\<And>before p text.
       cli example_env all_options_args = (before @ [WriteText p text], Returned) \<Longrightarrow>
         \<exists>formatted st. text = remove_semicolon_lines formatted (PyFloat ''12.0'')
            (PyFloat ''5.0'') (PyFloat ''0.3'') (PyFloat ''0.4'') st"
    by simp
  from this [OF run] stored show ?thesis
    by (simp add: example_parse_options example_config_def)
qed

text \<open>
  Against C1 as stated: with \<open>--line_width 3.0\<close> on the command line and
  \<open>line_width = 5.0\<close> in \<open>options.ini\<close>, the header of the output says \<open>Line_width = 5.0\<close>.
\<close>

theorem options_file_overrides_flag:
  "opt_line_width all_options_args = Some ''3.0''
   \<and> cli example_env all_options_args =
     ([WriteConfig ''input_parameters.txt'' all_options_config,
       Execute LaserCut \<lparr>options_file = ''part.gcode'', options_min_distance = ''0.5'',
                       options_verbose = True, options_params = all_options_config\<rparr>,
       EchoSaving (Joinpath ''out'' ''part.pg''),
       WriteText (Joinpath ''out'' ''part.pg'') (example_format [''MOVE 1 ; go'', ''STOP'']),
       WriteText (Joinpath ''out'' ''part.pg'')
         (''; Welding speed = 12.0'' @ [NL] @ ''; Line_width = 5.0'' @ [NL]
          @ ''; Layer_height = 0.3'' @ [NL] @ ''; First_layer_height = 0.4'' @ [NL]
          @ ''Estimated_printing_time = None'' @ [NL] @ ''Total_filament_cost = None'' @ [NL]
          @ ''Total_filament_used = None'' @ [NL] @ ''MOVE 1'' @ [NL] @ ''STOP'' @ [NL])],
      Returned)"
  using all_options_run by (simp add: all_options_args_def)

text \<open>
  C2, as amended.  The sign of \<open>min_dist\<close> is not checked: when the parameters resolve and
  the resolved mode is one of the modes, \<open>execute\<close> is called with the minimum distance
  given on the command line, whatever that value is.
\<close>

theorem negative_min_dist_not_rejected:
  assumes "resolve_parameters env args = (events, Inr r)"
    and "opt_min_dist args = Some x" and "CHR ''%'' \<notin> set x"
    and "map_of (modes env) (r_mode r) = Some k"
  shows "\<exists>y. float_of_str env x = Some y
           \<and> Execute k \<lparr>options_file = file_name args, options_min_distance = y,
                          options_verbose = flag_v args, options_params = r_config r\<rparr>
               \<in> set (fst (cli env args))"
proof -
  have "map_of (defaults (r_config r)) ''min_dist'' = Some x"
    using resolved_keys(2) [OF assms(1)] assms(2) by (simp add: float_else_def)
  from access_parameters_plain(2) [OF resolved_access [OF assms(1)] this assms(3)]
  obtain y where y: "float_of_str env x = Some y" "r_min_distance r = PyFloat y" by blast
  then have f: "py_float env (r_min_distance r) = Inr y" by (simp add: py_float_def)
  have "Execute k \<lparr>options_file = file_name args, options_min_distance = y,
                          options_verbose = flag_v args, options_params = r_config r\<rparr>
               \<in> set (fst (run_mode env args r))"
    using assms(4) f
    by (auto simp: run_mode_def Let_def split: sum.splits option.splits)
  then have "Execute k \<lparr>options_file = file_name args, options_min_distance = y,
                          options_verbose = flag_v args, options_params = r_config r\<rparr>
               \<in> set (fst (cli env args))"
    by (auto simp: cli_def assms(1) split: prod.splits)
  with y(1) show ?thesis by blast
qed

lemma negative_fields:
  "file_name negative_args = ''part.gcode''" "flag_v negative_args = False"
  "opt_min_dist negative_args = Some ''-1.0''"
  by (simp_all add: negative_args_def no_options_def)

theorem negative_min_dist_not_rejected_witness:
  "Execute Metal \<lparr>options_file = ''part.gcode'', options_min_distance = ''-1.0'',
                    options_verbose = False, options_params = negative_config\<rparr>
     \<in> set (fst (cli example_env negative_args))"
proof -
  have m: "map_of (modes example_env)
             (r_mode \<lparr>r_config = negative_config, r_mode = ''Metal 3D Printing'',
           r_min_distance = PyFloat ''-1.0'', r_use_different_output = False,
           r_out_dir = Some ''./'', r_welding_speed = PyFloat ''30.0'',
           r_line_width = PyFloat ''5.0'', r_layer_height = PyInt 1,
           r_first_layer_height = PyFloat ''1.2''\<rparr>) = Some Metal"
    by (simp add: example_modes)
  have p: "CHR ''%'' \<notin> set ''-1.0''" by simp
  from negative_min_dist_not_rejected [OF negative_resolve negative_fields(3) p m]
  show ?thesis by (simp add: negative_fields example_env_simps)
qed

text \<open>
  Against C2 as stated: with \<open>--min_dist -1.0\<close> the mode is executed with a minimum
  distance of \<open>-1.0\<close> and the output file is written.
\<close>

theorem negative_min_dist_is_executed:
  "opt_min_dist negative_args = Some ''-1.0''
   \<and> cli example_env negative_args =
     ([WriteConfig ''input_parameters.txt'' negative_config,
       Execute Metal \<lparr>options_file = ''part.gcode'', options_min_distance = ''-1.0'',
                       options_verbose = False, options_params = negative_config\<rparr>,
       EchoSaving (Joinpath ''./'' ''part.pg''),
       WriteText (Joinpath ''./'' ''part.pg'') (example_format [''MOVE 1 ; go'', ''STOP'']),
       WriteText (Joinpath ''./'' ''part.pg'')
         (''; Welding speed = 30.0'' @ [NL] @ ''; Line_width = 5.0'' @ [NL]
          @ ''; Layer_height = 1'' @ [NL] @ ''; First_layer_height = 1.2'' @ [NL]
          @ ''Estimated_printing_time = None'' @ [NL] @ ''Total_filament_cost = None'' @ [NL]
          @ ''Total_filament_used = None'' @ [NL] @ ''MOVE 1'' @ [NL] @ ''STOP'' @ [NL])],
      Returned)"
  using negative_run by (simp add: negative_args_def)

text \<open>
  C3, as amended.  The configuration passed to \<open>execute\<close> is the parser read from the file
  that \<open>locate\<close> found: it has the sections of that file and, outside the nine keys that
  \<open>cli\<close> sets, its default values.  It is written to \<open>input_parameters.txt\<close> in the
  working directory before \<open>execute\<close> is called, and \<open>cli\<close> calls \<open>execute\<close> once.
\<close>

theorem configuration_from_located_file:
  assumes "Execute k opts \<in> set (fst (cli env args))"
  shows "\<exists>located config rest.
           locate env = Inr located \<and> read_ini env located = Inr config
         \<and> sections (options_params opts) = sections config
         \<and> (\<forall>key. key \<notin> fst ` set default_params \<longrightarrow>
               map_of (defaults (options_params opts)) key = map_of (defaults config) key)
         \<and> fst (cli env args)
             = WriteConfig ''input_parameters.txt'' (options_params opts) # Execute k opts # rest
         \<and> (\<forall>k' opts'. Execute k' opts' \<notin> set rest)"
proof -
  from cli_Execute [OF assms] obtain events r where
    res: "resolve_parameters env args = (events, Inr r)" by blast
  note ex = cli_Execute_resolved [OF res assms]
  obtain tr ended where run: "run_mode env args r = (tr, ended)"
    by (cases "run_mode env args r")
  show ?thesis
  proof (rule resolve_parameters_Inr [OF res])
    fix located config options
    assume loc: "locate env = Inr located" "read_ini env located = Inr config"
      and secs: "sections (r_config r) = sections config"
      and keys: "\<And>key. map_of (defaults (r_config r)) key =
               (if key \<in> fst ` set default_params
                then Some (py_str (item (param_dict args) key))
                else map_of (defaults config) key)"
      and ev: "events = [WriteConfig ''input_parameters.txt'' (r_config r)]"
    from run have cli: "fst (cli env args) = WriteConfig ''input_parameters.txt'' (r_config r) # tr"
      by (simp add: cli_def res ev)
    with assms have "Execute k opts \<in> set tr" by simp
    with run have "\<exists>rest. tr = Execute k opts # rest \<and> (\<forall>k' opts'. Execute k' opts' \<notin> set rest)"
      unfolding run_mode_def
      by (auto simp: Let_def split: sum.splits option.splits if_splits)
    then obtain rest where rest: "tr = Execute k opts # rest"
      "\<forall>k' opts'. Execute k' opts' \<notin> set rest"
      by blast
    have "\<forall>key. key \<notin> fst ` set default_params \<longrightarrow>
               map_of (defaults (options_params opts)) key = map_of (defaults config) key"
      using keys by (simp add: ex(1))
    with loc secs cli rest ex(1) show ?thesis by simp
  qed
qed

theorem configuration_from_located_file_witness:
  "\<exists>located config rest.
      locate example_env = Inr located \<and> read_ini example_env located = Inr config
    \<and> sections example_resolved_config = sections config
    \<and> map_of (defaults example_resolved_config) ''nozzle'' = map_of (defaults config) ''nozzle''
    \<and> fst (cli example_env example_args)
        = WriteConfig ''input_parameters.txt'' example_resolved_config
          # Execute Metal \<lparr>options_file = ''part.gcode'', options_min_distance = ''2.0'',
                         options_verbose = False, options_params = example_resolved_config\<rparr>
          # rest"
proof -
  have ex: "Execute Metal \<lparr>options_file = ''part.gcode'', options_min_distance = ''2.0'',
                         options_verbose = False, options_params = example_resolved_config\<rparr>
          \<in> set (fst (cli example_env example_args))"
    by (simp add: example_run)
  have "''nozzle'' \<notin> fst ` set default_params" by (simp add: default_params_def)
  with configuration_from_located_file [OF ex] show ?thesis by auto
qed

text \<open>
  Against C3 as stated: the run reads the file that \<open>locate\<close> found somewhere on the file
  system (its \<open>nozzle\<close> entry reaches \<open>execute\<close>) and writes the parameter store
  \<open>input_parameters.txt\<close>.
\<close>

theorem ambient_parameter_file:
  "locate example_env = Inr ''/home/user/input_parameters.txt''
   \<and> read_ini example_env ''/home/user/input_parameters.txt'' = Inr example_config
   \<and> map_of (defaults example_config) ''nozzle'' = Some ''0.8''
   \<and> fst (cli example_env example_args) ! 0
       = WriteConfig ''input_parameters.txt'' example_resolved_config
   \<and> fst (cli example_env example_args) ! 1
       = Execute Metal \<lparr>options_file = ''part.gcode'', options_min_distance = ''2.0'',
                         options_verbose = False, options_params = example_resolved_config\<rparr>
   \<and> map_of (defaults example_resolved_config) ''nozzle'' = Some ''0.8''"
  by (simp add: example_run example_env_simps example_config_def example_resolved_config_def)

text \<open>
  C4.  When the mode that was selected is executed and returns \<open>None\<close>, \<open>cli\<close> returns at
  once: the call of \<open>execute\<close> is the last event of the run and no output file is written.
\<close>

theorem failed_translation_writes_nothing:
  assumes "Execute k opts \<in> set (fst (cli env args))"
    and "execute env k opts = Inr None"
  shows "snd (cli env args) = Returned
       \<and> (\<forall>p t. WriteText p t \<notin> set (fst (cli env args)))
       \<and> last (fst (cli env args)) = Execute k opts"
proof -
  from cli_Execute [OF assms(1)] obtain events r where
    res: "resolve_parameters env args = (events, Inr r)"
    and m: "map_of (modes env) (r_mode r) = Some k"
    and f: "py_float env (r_min_distance r) = Inr (options_min_distance opts)"
    and o: "opts = \<lparr>options_file = file_name args,
                  options_min_distance = options_min_distance opts,
                  options_verbose = flag_v args, options_params = r_config r\<rparr>"
    by blast
  from assms(2) o have "execute env k \<lparr>options_file = file_name args,
                  options_min_distance = options_min_distance opts,
                  options_verbose = flag_v args, options_params = r_config r\<rparr> = Inr None"
    by simp
  from run_mode_None [OF m f this] o
  have run: "run_mode env args r = ([Execute k opts], Returned)" by simp
  have cli: "cli env args = (events @ [Execute k opts], Returned)"
    by (simp add: cli_def res run)
  from resolve_parameters_quiet(2) [OF res] show ?thesis
    by (simp add: cli)
qed

theorem failed_translation_witness:
  "snd (cli failing_env example_args) = Returned
   \<and> last (fst (cli failing_env example_args))
       = Execute Metal \<lparr>options_file = ''part.gcode'', options_min_distance = ''2.0'',
                         options_verbose = False, options_params = example_resolved_config\<rparr>
   \<and> WriteText (Joinpath ''./'' ''part.pg'') (example_format [''MOVE 1 ; go'', ''STOP''])
       \<notin> set (fst (cli failing_env example_args))"
proof -
  have ex: "Execute Metal \<lparr>options_file = ''part.gcode'', options_min_distance = ''2.0'',
                         options_verbose = False, options_params = example_resolved_config\<rparr>
          \<in> set (fst (cli failing_env example_args))"
    by (simp add: failing_run)
  have none: "execute failing_env Metal
          \<lparr>options_file = ''part.gcode'', options_min_distance = ''2.0'',
                         options_verbose = False, options_params = example_resolved_config\<rparr>
        = Inr None"
    by (simp add: failing_env_def)
  from failed_translation_writes_nothing [OF ex none] show ?thesis by simp
qed

text \<open>
  C5, as amended.  When the parameters resolve to a mode that is not the message of one
  of the three modes, \<open>cli\<close> echoes the invalid mode with the valid choices and returns:
  \<open>execute\<close> is not called and no output file is written.  One file has been written by
  then, \<open>input_parameters.txt\<close> in the working directory, which holds the resolved
  parameters.
\<close>

theorem invalid_mode_reported:
  assumes "resolve_parameters env args = (events, Inr r)"
    and "r_mode r \<notin> {message env FDM, message env Metal, message env LaserCut}"
  shows "cli env args =
           ([WriteConfig ''input_parameters.txt'' (r_config r),
             Echo (''Error: The selected mode '' @ [CHR 0x27] @ r_mode r @ [CHR 0x27]
                   @ '' is not valid. Choose from: '' @ join '', '' (map fst (modes env)) @ ''.'')],
            Returned)
       \<and> set (map fst (modes env)) = {message env FDM, message env Metal, message env LaserCut}
       \<and> (\<forall>k opts. Execute k opts \<notin> set (fst (cli env args)))
       \<and> (\<forall>p text. WriteText p text \<notin> set (fst (cli env args)))"
proof -
  from assms(2) have "r_mode r \<notin> fst ` set (modes env)"
    using modes_keys [of env] by simp
  then have "map_of (modes env) (r_mode r) = None"
    by (simp add: map_of_eq_None_iff)
  then have run: "run_mode env args r =
           ([Echo (invalid_mode_message (r_mode r) (map fst (modes env)))], Returned)"
    by (rule run_mode_invalid)
  have ev: "events = [WriteConfig ''input_parameters.txt'' (r_config r)]"
    by (rule resolve_parameters_Inr [OF assms(1)])
  have "cli env args =
           ([WriteConfig ''input_parameters.txt'' (r_config r),
             Echo (invalid_mode_message (r_mode r) (map fst (modes env)))], Returned)"
    by (simp add: cli_def assms(1) run ev)
  then show ?thesis
    using modes_keys [of env] by (simp add: invalid_mode_message_def)
qed

theorem invalid_mode_reported_witness:
  "cli example_env invalid_mode_args =
     ([WriteConfig ''input_parameters.txt'' invalid_mode_config,
       Echo (''Error: The selected mode '' @ [CHR 0x27] @ ''FDM'' @ [CHR 0x27]
             @ '' is not valid. Choose from: FDM 3D Printing, Metal 3D Printing, Laser Cutting.'')],
      Returned)
   \<and> set (map fst (modes example_env)) = {''FDM 3D Printing'', ''Metal 3D Printing'', ''Laser Cutting''}"
proof -
  have "r_mode \<lparr>r_config = invalid_mode_config, r_mode = ''FDM'',
           r_min_distance = PyFloat ''2.0'', r_use_different_output = False,
           r_out_dir = Some ''./'', r_welding_speed = PyFloat ''30.0'',
           r_line_width = PyFloat ''5.0'', r_layer_height = PyInt 1,
           r_first_layer_height = PyFloat ''1.2''\<rparr>
        \<notin> {message example_env FDM, message example_env Metal, message example_env LaserCut}"
    by (simp add: example_env_simps)
  from invalid_mode_reported [OF invalid_mode_resolve this]
  show ?thesis by (simp add: example_modes example_env_simps)
qed

text \<open>
  Against C5 as stated: a run with the unrecognized mode \<open>FDM\<close> writes
  \<open>input_parameters.txt\<close>, with that mode in it.
\<close>

theorem invalid_mode_rewrites_parameter_file:
  "opt_mode invalid_mode_args = Some ''FDM''
   \<and> ''FDM'' \<notin> set (map fst (modes example_env))
   \<and> WriteConfig ''input_parameters.txt'' invalid_mode_config
        \<in> set (fst (cli example_env invalid_mode_args))
   \<and> map_of (defaults invalid_mode_config) ''mode'' = Some ''FDM''"
  using invalid_mode_run
  by (simp add: invalid_mode_args_def example_modes invalid_mode_config_def)

text \<open>
  C6, as amended.  When the resolution of the parameters completes, every field that the
  command line omits has its built-in default: the configuration passed to \<open>execute\<close>
  stores \<open>2\<close> for \<open>min_dist\<close> (and the minimum distance passed is the float of \<open>2\<close>),
  \<open>False\<close> for \<open>vase_mode\<close> and \<open>inverted\<close>, \<open>30.0\<close> for \<open>welding_speed\<close>, \<open>2.4\<close> for
  \<open>line_width\<close>, \<open>1\<close> for \<open>layer_height\<close> and \<open>1.2\<close> for \<open>first_layer_height\<close>; the header
  prints the same defaults where \<open>options.ini\<close> is silent too; \<open>verbose\<close> is the flag \<open>-v\<close>,
  false when not given.  The default of \<open>mode\<close> is the string \<open>Metal 3D Printing\<close>, which
  is none of \<open>FDM\<close>, \<open>Metal\<close>, \<open>LaserCut\<close>: a mode is selected by its message.  When no
  mode has the message \<open>Metal 3D Printing\<close>, the run with the default mode writes
  \<open>input_parameters.txt\<close>, reports the mode as invalid and returns; when a mode has it,
  and \<open>min_dist\<close> is omitted too, that mode is executed with the minimum distance \<open>2\<close>.
\<close>

theorem omitted_fields_get_defaults:
  assumes "resolve_parameters env args = (events, Inr r)"
  shows "(opt_mode args = None \<longrightarrow>
            map_of (defaults (r_config r)) ''mode'' = Some ''Metal 3D Printing''
          \<and> r_mode r = ''Metal 3D Printing''
          \<and> r_mode r \<notin> {''FDM'', ''Metal'', ''LaserCut''}
          \<and> (''Metal 3D Printing'' \<notin> {message env FDM, message env Metal, message env LaserCut}
               \<longrightarrow> cli env args =
                     ([WriteConfig ''input_parameters.txt'' (r_config r),
                       Echo (invalid_mode_message ''Metal 3D Printing'' (map fst (modes env)))],
                      Returned))
          \<and> (\<forall>k. map_of (modes env) ''Metal 3D Printing'' = Some k \<longrightarrow>
                 opt_min_dist args = None \<longrightarrow>
                 (\<exists>y. float_of_str env ''2'' = Some y
                    \<and> Execute k \<lparr>options_file = file_name args, options_min_distance = y,
                                  options_verbose = flag_v args, options_params = r_config r\<rparr>
                        \<in> set (fst (cli env args)))))
       \<and> (opt_min_dist args = None \<longrightarrow>
            map_of (defaults (r_config r)) ''min_dist'' = Some ''2''
          \<and> (\<exists>y. float_of_str env ''2'' = Some y \<and> r_min_distance r = PyFloat y))
       \<and> (opt_vase_mode args = None \<longrightarrow>
            map_of (defaults (r_config r)) ''vase_mode'' = Some ''False'')
       \<and> (opt_welding_speed args = None \<longrightarrow>
            map_of (defaults (r_config r)) ''welding_speed'' = Some ''30.0''
          \<and> r_welding_speed r = PyFloat ''30.0'')
       \<and> (opt_inverted args = None \<longrightarrow>
            map_of (defaults (r_config r)) ''inverted'' = Some ''False'')
       \<and> (opt_line_width args = None \<longrightarrow>
            map_of (defaults (r_config r)) ''line_width'' = Some ''2.4''
          \<and> (\<forall>options. parse_options_ini env ''options.ini'' = Inr options \<longrightarrow>
                 map_of options ''line_width'' = None \<longrightarrow> r_line_width r = PyFloat ''2.4''))
       \<and> (opt_layer_height args = None \<longrightarrow>
            map_of (defaults (r_config r)) ''layer_height'' = Some ''1''
          \<and> (\<forall>options. parse_options_ini env ''options.ini'' = Inr options \<longrightarrow>
                 map_of options ''layer_height'' = None \<longrightarrow> r_layer_height r = PyInt 1))
       \<and> (opt_first_layer_height args = None \<longrightarrow>
            map_of (defaults (r_config r)) ''first_layer_height'' = Some ''1.2''
          \<and> (\<forall>options. parse_options_ini env ''options.ini'' = Inr options \<longrightarrow>
                 map_of options ''first_layer_height'' = None \<longrightarrow>
                 r_first_layer_height r = PyFloat ''1.2''))
       \<and> (\<forall>k opts. Execute k opts \<in> set (fst (cli env args)) \<longrightarrow>
            options_params opts = r_config r \<and> message env k = r_mode r
            \<and> py_float env (r_min_distance r) = Inr (options_min_distance opts)
            \<and> options_verbose opts = flag_v args)
       \<and> flag_v (no_options name stem) = False"
proof -
  note keys = resolved_keys [OF assms]
  note acc = access_parameters_plain [OF resolved_access [OF assms]]
  have stored:
    "opt_mode args = None \<longrightarrow> map_of (defaults (r_config r)) ''mode'' = Some ''Metal 3D Printing''"
    "opt_min_dist args = None \<longrightarrow> map_of (defaults (r_config r)) ''min_dist'' = Some ''2''"
    "opt_vase_mode args = None \<longrightarrow> map_of (defaults (r_config r)) ''vase_mode'' = Some ''False''"
    "opt_welding_speed args = None \<longrightarrow>
       map_of (defaults (r_config r)) ''welding_speed'' = Some ''30.0''"
    "opt_inverted args = None \<longrightarrow> map_of (defaults (r_config r)) ''inverted'' = Some ''False''"
    "opt_line_width args = None \<longrightarrow> map_of (defaults (r_config r)) ''line_width'' = Some ''2.4''"
    "opt_layer_height args = None \<longrightarrow> map_of (defaults (r_config r)) ''layer_height'' = Some ''1''"
    "opt_first_layer_height args = None \<longrightarrow>
       map_of (defaults (r_config r)) ''first_layer_height'' = Some ''1.2''"
    by (simp_all add: keys str_or_def float_else_def bool_else_def str_int_digits)
  have used:
    "opt_mode args = None \<longrightarrow> r_mode r = ''Metal 3D Printing''"
    "opt_min_dist args = None \<longrightarrow>
       (\<exists>y. float_of_str env ''2'' = Some y \<and> r_min_distance r = PyFloat y)"
  proof -
    show "opt_mode args = None \<longrightarrow> r_mode r = ''Metal 3D Printing''"
      using stored(1) acc(1) [of "''Metal 3D Printing''"] by simp
    show "opt_min_dist args = None \<longrightarrow>
       (\<exists>y. float_of_str env ''2'' = Some y \<and> r_min_distance r = PyFloat y)"
      using stored(2) acc(2) [of "''2''"] by simp
  qed
  obtain options where po: "parse_options_ini env ''options.ini'' = Inr options"
    by (rule resolve_parameters_Inr [OF assms])
  note hv = header_values [OF resolved_header [OF assms po]]
  have header:
    "opt_welding_speed args = None \<longrightarrow> r_welding_speed r = PyFloat ''30.0''"
    "\<forall>options. parse_options_ini env ''options.ini'' = Inr options \<longrightarrow> opt_line_width args = None \<longrightarrow>
         map_of options ''line_width'' = None \<longrightarrow> r_line_width r = PyFloat ''2.4''"
    "\<forall>options. parse_options_ini env ''options.ini'' = Inr options \<longrightarrow> opt_layer_height args = None \<longrightarrow>
         map_of options ''layer_height'' = None \<longrightarrow> r_layer_height r = PyInt 1"
    "\<forall>options. parse_options_ini env ''options.ini'' = Inr options \<longrightarrow>
         opt_first_layer_height args = None \<longrightarrow>
         map_of options ''first_layer_height'' = None \<longrightarrow> r_first_layer_height r = PyFloat ''1.2''"
    using hv(1,2,4,6) by (auto simp: po float_else_def)
  have exec: "\<forall>k opts. Execute k opts \<in> set (fst (cli env args)) \<longrightarrow>
            options_params opts = r_config r \<and> message env k = r_mode r
            \<and> py_float env (r_min_distance r) = Inr (options_min_distance opts)
            \<and> options_verbose opts = flag_v args"
    using cli_Execute_resolved [OF assms] by blast
  have flag: "flag_v (no_options name stem) = False" by (simp add: no_options_def)
  have mode: "opt_mode args = None \<longrightarrow>
            map_of (defaults (r_config r)) ''mode'' = Some ''Metal 3D Printing''
          \<and> r_mode r = ''Metal 3D Printing''
          \<and> r_mode r \<notin> {''FDM'', ''Metal'', ''LaserCut''}
          \<and> (''Metal 3D Printing'' \<notin> {message env FDM, message env Metal, message env LaserCut}
               \<longrightarrow> cli env args =
                     ([WriteConfig ''input_parameters.txt'' (r_config r),
                       Echo (invalid_mode_message ''Metal 3D Printing'' (map fst (modes env)))],
                      Returned))
          \<and> (\<forall>k. map_of (modes env) ''Metal 3D Printing'' = Some k \<longrightarrow>
                 opt_min_dist args = None \<longrightarrow>
                 (\<exists>y. float_of_str env ''2'' = Some y
                    \<and> Execute k \<lparr>options_file = file_name args, options_min_distance = y,
                                  options_verbose = flag_v args, options_params = r_config r\<rparr>
                        \<in> set (fst (cli env args))))"
  proof
    assume none: "opt_mode args = None"
    with used(1) have m: "r_mode r = ''Metal 3D Printing''" by simp
    from none stored(1) have s: "map_of (defaults (r_config r)) ''mode'' = Some ''Metal 3D Printing''"
      by simp
    have a: "r_mode r \<notin> {''FDM'', ''Metal'', ''LaserCut''}" by (simp add: m)
    have b: "''Metal 3D Printing'' \<notin> {message env FDM, message env Metal, message env LaserCut}
               \<longrightarrow> cli env args =
                     ([WriteConfig ''input_parameters.txt'' (r_config r),
                       Echo (invalid_mode_message ''Metal 3D Printing'' (map fst (modes env)))],
                      Returned)"
      using cli_invalid [OF assms] by (simp add: m)
    have c: "\<forall>k. map_of (modes env) ''Metal 3D Printing'' = Some k \<longrightarrow>
                 opt_min_dist args = None \<longrightarrow>
                 (\<exists>y. float_of_str env ''2'' = Some y
                    \<and> Execute k \<lparr>options_file = file_name args, options_min_distance = y,
                                  options_verbose = flag_v args, options_params = r_config r\<rparr>
                        \<in> set (fst (cli env args)))"
    proof (intro allI impI)
      fix k
      assume k: "map_of (modes env) ''Metal 3D Printing'' = Some k"
        and "opt_min_dist args = None"
      with used(2) obtain y where y: "float_of_str env ''2'' = Some y"
        "r_min_distance r = PyFloat y" by blast
      from k have "map_of (modes env) (r_mode r) = Some k" by (simp add: m)
      moreover have "py_float env (r_min_distance r) = Inr y" by (simp add: y(2) py_float_def)
      ultimately show "\<exists>y. float_of_str env ''2'' = Some y
                    \<and> Execute k \<lparr>options_file = file_name args, options_min_distance = y,
                                  options_verbose = flag_v args, options_params = r_config r\<rparr>
                        \<in> set (fst (cli env args))"
        using cli_executes [OF assms] y(1) by blast
    qed
    from s m a b c show "map_of (defaults (r_config r)) ''mode'' = Some ''Metal 3D Printing''
          \<and> r_mode r = ''Metal 3D Printing''
          \<and> r_mode r \<notin> {''FDM'', ''Metal'', ''LaserCut''}
          \<and> (''Metal 3D Printing'' \<notin> {message env FDM, message env Metal, message env LaserCut}
               \<longrightarrow> cli env args =
                     ([WriteConfig ''input_parameters.txt'' (r_config r),
                       Echo (invalid_mode_message ''Metal 3D Printing'' (map fst (modes env)))],
                      Returned))
          \<and> (\<forall>k. map_of (modes env) ''Metal 3D Printing'' = Some k \<longrightarrow>
                 opt_min_dist args = None \<longrightarrow>
                 (\<exists>y. float_of_str env ''2'' = Some y
                    \<and> Execute k \<lparr>options_file = file_name args, options_min_distance = y,
                                  options_verbose = flag_v args, options_params = r_config r\<rparr>
                        \<in> set (fst (cli env args))))"
      by (intro conjI)
  qed
  from stored(2-8) used(2) header exec flag have rest:
    "(opt_min_dist args = None \<longrightarrow>
            map_of (defaults (r_config r)) ''min_dist'' = Some ''2''
          \<and> (\<exists>y. float_of_str env ''2'' = Some y \<and> r_min_distance r = PyFloat y))
       \<and> (opt_vase_mode args = None \<longrightarrow>
            map_of (defaults (r_config r)) ''vase_mode'' = Some ''False'')
       \<and> (opt_welding_speed args = None \<longrightarrow>
            map_of (defaults (r_config r)) ''welding_speed'' = Some ''30.0''
          \<and> r_welding_speed r = PyFloat ''30.0'')
       \<and> (opt_inverted args = None \<longrightarrow>
            map_of (defaults (r_config r)) ''inverted'' = Some ''False'')
       \<and> (opt_line_width args = None \<longrightarrow>
            map_of (defaults (r_config r)) ''line_width'' = Some ''2.4''
          \<and> (\<forall>options. parse_options_ini env ''options.ini'' = Inr options \<longrightarrow>
                 map_of options ''line_width'' = None \<longrightarrow> r_line_width r = PyFloat ''2.4''))
       \<and> (opt_layer_height args = None \<longrightarrow>
            map_of (defaults (r_config r)) ''layer_height'' = Some ''1''
          \<and> (\<forall>options. parse_options_ini env ''options.ini'' = Inr options \<longrightarrow>
                 map_of options ''layer_height'' = None \<longrightarrow> r_layer_height r = PyInt 1))
       \<and> (opt_first_layer_height args = None \<longrightarrow>
            map_of (defaults (r_config r)) ''first_layer_height'' = Some ''1.2''
          \<and> (\<forall>options. parse_options_ini env ''options.ini'' = Inr options \<longrightarrow>
                 map_of options ''first_layer_height'' = None \<longrightarrow>
                 r_first_layer_height r = PyFloat ''1.2''))
       \<and> (\<forall>k opts. Execute k opts \<in> set (fst (cli env args)) \<longrightarrow>
            options_params opts = r_config r \<and> message env k = r_mode r
            \<and> py_float env (r_min_distance r) = Inr (options_min_distance opts)
            \<and> options_verbose opts = flag_v args)
       \<and> flag_v (no_options name stem) = False"
    by simp
  from mode rest show ?thesis by (rule conjI)
qed

lemma default_fields:
  "file_name (no_options n s) = n" "flag_v (no_options n s) = False"
  "opt_mode (no_options n s) = None" "opt_min_dist (no_options n s) = None"
  "opt_vase_mode (no_options n s) = None" "opt_welding_speed (no_options n s) = None"
  "opt_inverted (no_options n s) = None" "opt_output (no_options n s) = None"
  "opt_line_width (no_options n s) = None" "opt_layer_height (no_options n s) = None"
  "opt_first_layer_height (no_options n s) = None"
  by (simp_all add: no_options_def)

theorem omitted_fields_get_defaults_witness:
  "map_of (defaults default_config) ''mode'' = Some ''Metal 3D Printing''
   \<and> map_of (defaults default_config) ''min_dist'' = Some ''2''
   \<and> map_of (defaults default_config) ''vase_mode'' = Some ''False''
   \<and> map_of (defaults default_config) ''welding_speed'' = Some ''30.0''
   \<and> map_of (defaults default_config) ''inverted'' = Some ''False''
   \<and> map_of (defaults default_config) ''line_width'' = Some ''2.4''
   \<and> map_of (defaults default_config) ''layer_height'' = Some ''1''
   \<and> map_of (defaults default_config) ''first_layer_height'' = Some ''1.2''
   \<and> float_of_str plain_env ''2'' = Some ''2.0''
   \<and> Execute Metal \<lparr>options_file = ''part.gcode'', options_min_distance = ''2.0'',
                       options_verbose = False, options_params = default_config\<rparr>
       \<in> set (fst (cli plain_env (no_options ''part.gcode'' ''part'')))
   \<and> message plain_env Metal = ''Metal 3D Printing''
   \<and> cli spec_named_env (no_options ''part.gcode'' ''part'') =
       ([WriteConfig ''input_parameters.txt'' default_config,
         Echo (''Error: The selected mode '' @ [CHR 0x27] @ ''Metal 3D Printing'' @ [CHR 0x27]
               @ '' is not valid. Choose from: FDM, Metal, LaserCut.'')],
        Returned)"
proof -
  note th = omitted_fields_get_defaults [OF default_resolve, of "''part.gcode''" "''part''"]
  note mode = mp [OF th [THEN conjunct1] default_fields(3)]
  have stored: "map_of (defaults default_config) ''min_dist'' = Some ''2''
   \<and> map_of (defaults default_config) ''vase_mode'' = Some ''False''
   \<and> map_of (defaults default_config) ''welding_speed'' = Some ''30.0''
   \<and> map_of (defaults default_config) ''inverted'' = Some ''False''
   \<and> map_of (defaults default_config) ''line_width'' = Some ''2.4''
   \<and> map_of (defaults default_config) ''layer_height'' = Some ''1''
   \<and> map_of (defaults default_config) ''first_layer_height'' = Some ''1.2''"
    using th [THEN conjunct2] by (simp add: default_fields)
  have md: "map_of (defaults default_config) ''mode'' = Some ''Metal 3D Printing''"
    using mode [THEN conjunct1] by simp
  have two: "float_of_str plain_env ''2'' = Some ''2.0''"
    by (simp add: plain_env_def example_env_simps)
  have "map_of (modes plain_env) ''Metal 3D Printing'' = Some Metal"
    by (simp add: plain_modes)
  with mode [THEN conjunct2, THEN conjunct2, THEN conjunct2, THEN conjunct2] two
  have ex: "Execute Metal \<lparr>options_file = ''part.gcode'', options_min_distance = ''2.0'',
                       options_verbose = False, options_params = default_config\<rparr>
       \<in> set (fst (cli plain_env (no_options ''part.gcode'' ''part'')))"
    by (simp add: default_fields)
  with th [THEN conjunct2] have msg: "message plain_env Metal = ''Metal 3D Printing''"
    by (auto simp: default_fields)
  note th' = omitted_fields_get_defaults [OF spec_named_resolve, of "''part.gcode''" "''part''"]
  note mode' = mp [OF th' [THEN conjunct1] default_fields(3)]
  have "''Metal 3D Printing'' \<notin> {message spec_named_env FDM, message spec_named_env Metal,
                                   message spec_named_env LaserCut}"
    by (simp add: spec_named_message)
  with mode' [THEN conjunct2, THEN conjunct2, THEN conjunct2, THEN conjunct1]
  have "cli spec_named_env (no_options ''part.gcode'' ''part'') =
       ([WriteConfig ''input_parameters.txt'' default_config,
         Echo (invalid_mode_message ''Metal 3D Printing'' (map fst (modes spec_named_env)))],
        Returned)"
    by simp
  then have named: "cli spec_named_env (no_options ''part.gcode'' ''part'') =
       ([WriteConfig ''input_parameters.txt'' default_config,
         Echo (''Error: The selected mode '' @ [CHR 0x27] @ ''Metal 3D Printing'' @ [CHR 0x27]
               @ '' is not valid. Choose from: FDM, Metal, LaserCut.'')],
        Returned)"
    by (simp add: spec_named_modes invalid_mode_message_def)
  from md stored two ex msg named show ?thesis by (intro conjI) simp_all
qed

text \<open>
  Against C6 as stated: with no \<open>--mode\<close> the mode resolved, stored and passed to
  \<open>execute\<close> is the string \<open>Metal 3D Printing\<close>, none of \<open>FDM\<close>, \<open>Metal\<close>, \<open>LaserCut\<close>.
\<close>

theorem default_mode_is_no_listed_name:
  "opt_mode (no_options ''part.gcode'' ''part'') = None
   \<and> map_sum id r_mode (snd (resolve_parameters plain_env (no_options ''part.gcode'' ''part'')))
       = Inr ''Metal 3D Printing''
   \<and> ''Metal 3D Printing'' \<notin> {''FDM'', ''Metal'', ''LaserCut''}
   \<and> fst (cli plain_env (no_options ''part.gcode'' ''part'')) ! 1
       = Execute Metal \<lparr>options_file = ''part.gcode'', options_min_distance = ''2.0'',
                         options_verbose = False, options_params = default_config\<rparr>
   \<and> map_of (defaults default_config) ''mode'' = Some ''Metal 3D Printing''"
proof -
  have "map_of (defaults default_config) ''mode'' = Some ''Metal 3D Printing''"
    by (simp add: default_config_def)
  then show ?thesis
    by (simp add: default_resolve default_run default_fields)
qed

text \<open>
  What holds of \<open>read_input_parameters\<close>: it does not depend on its argument, and when
  \<open>locate\<close> has returned a path, the file read is the one at that path: if reading it
  raises, or leaves the parser without a section, the function prints the error and
  returns \<open>None\<close>, and \<open>cli\<close> returns with nothing else done; otherwise it returns the
  parser.
\<close>

lemma read_input_parameters_located:
  "read_input_parameters env file_path = read_input_parameters env file_path'
   \<and> (\<forall>located. locate env = Inr located \<longrightarrow>
        (\<forall>e. read_ini env located = Inl e \<longrightarrow>
           read_input_parameters env file_path = Inr ([PrintError located e], None)
         \<and> cli env args = ([PrintError located e], Returned))
      \<and> (\<forall>config. read_ini env located = Inr config \<longrightarrow>
           (sections config = [] \<longrightarrow>
              read_input_parameters env file_path = Inr ([PrintError located TypeError], None)
            \<and> cli env args = ([PrintError located TypeError], Returned))
         \<and> (sections config \<noteq> [] \<longrightarrow>
              read_input_parameters env file_path = Inr ([], Some config))))"
  by (auto simp: read_input_parameters_def cli_def resolve_parameters_def)

lemma read_input_parameters_located_example:
  "read_input_parameters no_section_env ''input_parameters.txt''
     = read_input_parameters no_section_env ''another.txt''
   \<and> read_input_parameters no_section_env ''input_parameters.txt''
     = Inr ([PrintError ''/home/user/input_parameters.txt'' TypeError], None)
   \<and> cli no_section_env example_args
     = ([PrintError ''/home/user/input_parameters.txt'' TypeError], Returned)
   \<and> read_input_parameters example_env ''input_parameters.txt'' = Inr ([], Some example_config)"
proof -
  note a = read_input_parameters_located
    [of no_section_env "''input_parameters.txt''" "''another.txt''" example_args]
  note b = read_input_parameters_located
    [of example_env "''input_parameters.txt''" "''another.txt''" example_args]
  have loc: "locate no_section_env = Inr ''/home/user/input_parameters.txt''"
    "read_ini no_section_env ''/home/user/input_parameters.txt''
       = Inr \<lparr>defaults = [(''mode'', ''FDM 3D Printing'')], sections = []\<rparr>"
    by (simp_all add: no_section_env_def example_env_simps)
  have loc': "locate example_env = Inr ''/home/user/input_parameters.txt''"
    "read_ini example_env ''/home/user/input_parameters.txt'' = Inr example_config"
    "sections example_config \<noteq> []"
    by (simp_all add: example_env_simps example_config_def)
  from a have 1: "read_input_parameters no_section_env ''input_parameters.txt''
     = read_input_parameters no_section_env ''another.txt''"
    by (rule conjunct1)
  from conjunct2 [OF a] loc have 2: "read_input_parameters no_section_env ''input_parameters.txt''
     = Inr ([PrintError ''/home/user/input_parameters.txt'' TypeError], None)
   \<and> cli no_section_env example_args
     = ([PrintError ''/home/user/input_parameters.txt'' TypeError], Returned)"
    by simp
  from b loc' have 3: "read_input_parameters example_env ''input_parameters.txt''
     = Inr ([], Some example_config)"
    by blast
  from 1 2 3 show ?thesis by blast
qed

text \<open>
  C9.  \<open>read_input_parameters\<close> is to return \<open>None\<close> on any failure, that of \<open>locate\<close>
  included; but the call of \<open>locate\<close> stands before the \<open>try\<close>: when \<open>locate\<close> fails,
  \<open>read_input_parameters\<close> raises, and the exception ends \<open>cli\<close>.
\<close>

theorem locate_failure_raises:
  "locate no_locate_env = Inl CalledProcessError
   \<and> read_input_parameters no_locate_env ''input_parameters.txt'' = Inl CalledProcessError
   \<and> cli no_locate_env example_args = ([], Raised CalledProcessError)"
  by (simp add: no_locate_env_def read_input_parameters_def cli_def resolve_parameters_def)

section \<open>The claim about the path simplifier\<close>

lemma distance_nonneg: "0 \<le> distance a b"
  by (simp add: distance_def)

lemma simplify_from_pass_through: "d \<le> 0 \<Longrightarrow> simplify_from d retained previous ws = ws"
proof (induction ws arbitrary: retained previous)
  case Nil
  then show ?case by simp
next
  case (Cons w ws)
  have "\<not> distance retained w < d"
    using Cons.prems distance_nonneg [of retained w] by linarith
  with Cons show ?case by simp
qed

text \<open>
  C8.  With a threshold \<open>d \<le> 0\<close>, and so with \<open>min_distance = 0\<close>, the path simplifier
  returns the waypoints it was given: as many waypoints leave it as entered it.
\<close>

theorem path_simplifier_pass_through:
  assumes "d \<le> 0"
  shows "path_simplifier d ws = ws \<and> length (path_simplifier d ws) = length ws"
  using assms by (simp add: path_simplifier_def simplify_from_pass_through split: list.splits)

theorem path_simplifier_pass_through_witness:
  "path_simplifier 0
     [\<lparr>wp_x = 0, wp_y = 0, wp_z = 0, tool_active = False\<rparr>,
      \<lparr>wp_x = 10, wp_y = 0, wp_z = 0, tool_active = True\<rparr>,
      \<lparr>wp_x = 10, wp_y = 1/2, wp_z = 0, tool_active = True\<rparr>,
      \<lparr>wp_x = 10, wp_y = 1, wp_z = 0, tool_active = True\<rparr>]
   = [\<lparr>wp_x = 0, wp_y = 0, wp_z = 0, tool_active = False\<rparr>,
      \<lparr>wp_x = 10, wp_y = 0, wp_z = 0, tool_active = True\<rparr>,
      \<lparr>wp_x = 10, wp_y = 1/2, wp_z = 0, tool_active = True\<rparr>,
      \<lparr>wp_x = 10, wp_y = 1, wp_z = 0, tool_active = True\<rparr>]
   \<and> length (path_simplifier 0
     [\<lparr>wp_x = 0, wp_y = 0, wp_z = 0, tool_active = False\<rparr>,
      \<lparr>wp_x = 10, wp_y = 0, wp_z = 0, tool_active = True\<rparr>,
      \<lparr>wp_x = 10, wp_y = 1/2, wp_z = 0, tool_active = True\<rparr>,
      \<lparr>wp_x = 10, wp_y = 1, wp_z = 0, tool_active = True\<rparr>]) = 4"
  using path_simplifier_pass_through [of 0
     "[\<lparr>wp_x = 0, wp_y = 0, wp_z = 0, tool_active = False\<rparr>,
      \<lparr>wp_x = 10, wp_y = 0, wp_z = 0, tool_active = True\<rparr>,
      \<lparr>wp_x = 10, wp_y = 1/2, wp_z = 0, tool_active = True\<rparr>,
      \<lparr>wp_x = 10, wp_y = 1, wp_z = 0, tool_active = True\<rparr>]"]
  by simp

end
